theory Spec2Isabelle
  imports Complex_Main "HOL-Library.Log_Nat"
begin

section \<open>Values and records\<close>

text \<open>
  A JavaScript number, as far as the program observes it: NaN, the two infinities and the
  finite doubles, each written as the rational it stands for. The two zeros are one
  value: nothing the program computes tells them apart.
\<close>

datatype jsnum = NaN | PInf | NInf | Fin rat

text \<open>
  The primitive values a field read from storage or from a form control can hold.
\<close>

datatype jsval = Undefined | Null | Bool bool | Num jsnum | Str string

text \<open>
  The form's field set \<open>{ name, amount, dueDate, category }\<close>, and the stored record,
  which adds \<open>id\<close> and \<open>paid\<close> (\<open>{ ...expense, id: Date.now(), paid: false }\<close>).
  The field \<open>id\<close> is written \<open>id'\<close>.
\<close>

record draft =
  name :: string
  amount :: jsval
  dueDate :: string
  category :: string

record expense = draft +
  id' :: int
  paid :: bool

text \<open>The state of the component \<open>App\<close>: its \<open>useState\<close> cells.\<close>

record app =
  expenses :: "expense list"
  isFormOpen :: bool
  editingExpense :: "expense option"
  categoryFilter :: string
  monthFilter :: string
  yearFilter :: string
  isChartVisible :: bool

section \<open>Numbers, truthiness and the numeric parsers\<close>

fun truthy :: "jsval \<Rightarrow> bool" where
  "truthy Undefined = False"
| "truthy Null = False"
| "truthy (Bool b) = b"
| "truthy (Num n) = (n \<noteq> NaN \<and> n \<noteq> Fin 0)"
| "truthy (Str s) = (s \<noteq> [])"

text \<open>\<open>a || 0\<close>\<close>

definition or0 :: "jsval \<Rightarrow> jsval" where
  "or0 v = (if truthy v then v else Num (Fin 0))"

fun isNaN :: "jsnum \<Rightarrow> bool" where
  "isNaN NaN = True"
| "isNaN n = False"

fun js_neg :: "jsnum \<Rightarrow> jsnum" where
  "js_neg NaN = NaN"
| "js_neg PInf = NInf"
| "js_neg NInf = PInf"
| "js_neg (Fin a) = Fin (- a)"

text \<open>A power of two with a signed exponent.\<close>

definition pow2 :: "int \<Rightarrow> rat" where
  "pow2 e = (if 0 \<le> e then 2 ^ nat e else 1 / 2 ^ nat (- e))"

text \<open>
  The binary exponent of a positive rational \<open>a\<close>: the \<open>k\<close> with
  \<open>2^k \<le> a < 2^(k+1)\<close>, found from the bit lengths of numerator and denominator.
\<close>

definition ilog2 :: "rat \<Rightarrow> int" where
  "ilog2 a =
     (let k = bitlen (fst (quotient_of a)) - bitlen (snd (quotient_of a))
      in if pow2 k \<le> a then k else k - 1)"

text \<open>The nearest integer, a tie going to the even one.\<close>

definition round_half_even :: "rat \<Rightarrow> int" where
  "round_half_even q =
     (let f = \<lfloor>q\<rfloor>; r = q - of_int f
      in if r < 1 / 2 then f else if 1 / 2 < r then f + 1 else if even f then f else f + 1)"

text \<open>
  The double nearest to a rational, as IEEE 754 rounds the result of every operation: 53
  significant bits, the exponent of the last bit not below \<open>-1074\<close> (so that small
  values lose bits and the smallest become 0), ties to the even significand, and an
  infinity once the rounded value reaches \<open>2^1024\<close>.
\<close>

definition round64 :: "rat \<Rightarrow> jsnum" where
  "round64 x =
     (if x = 0 then Fin 0
      else
        (let a = \<bar>x\<bar>;
             e = max (- 1074) (ilog2 a - 52);
             m = round_half_even (a / pow2 e);
             v = of_int m * pow2 e
         in if pow2 1024 \<le> v then (if 0 < x then PInf else NInf)
            else Fin (if 0 < x then v else - v)))"

text \<open>\<open>a + b\<close> on numbers: the exact sum of two finite numbers, rounded\<close>

fun js_add :: "jsnum \<Rightarrow> jsnum \<Rightarrow> jsnum" where
  "js_add (Fin a) (Fin b) = round64 (a + b)"
| "js_add NaN b = NaN"
| "js_add a NaN = NaN"
| "js_add PInf NInf = NaN"
| "js_add NInf PInf = NaN"
| "js_add PInf b = PInf"
| "js_add a PInf = PInf"
| "js_add NInf b = NInf"
| "js_add a NInf = NInf"


text \<open>\<open>a <= b\<close> on numbers: false as soon as one side is NaN\<close>

fun js_le :: "jsnum \<Rightarrow> jsnum \<Rightarrow> bool" where
  "js_le (Fin a) (Fin b) = (a \<le> b)"
| "js_le NaN b = False"
| "js_le a NaN = False"
| "js_le NInf b = True"
| "js_le a PInf = True"
| "js_le a b = False"


text \<open>
  Characters are code units below 256. The white space that \<open>parseFloat\<close> and
  \<open>parseInt\<close> strip: TAB, LF, VT, FF, CR, SP and NBSP.
\<close>

definition is_ws :: "char \<Rightarrow> bool" where
  "is_ws c = ((of_char c :: nat) \<in> {9, 10, 11, 12, 13, 32, 160})"

definition is_digit :: "char \<Rightarrow> bool" where
  "is_digit c = (48 \<le> (of_char c :: nat) \<and> (of_char c :: nat) \<le> 57)"

definition digit_val :: "char \<Rightarrow> nat" where
  "digit_val c = of_char c - 48"

definition digits_val :: "string \<Rightarrow> nat" where
  "digits_val ds = foldl (\<lambda>a c. 10 * a + digit_val c) 0 ds"

definition starts_with :: "string \<Rightarrow> string \<Rightarrow> bool" where
  "starts_with p s = (take (length p) s = p)"

text \<open>The value of \<open>10\<close> to a signed power.\<close>

definition pow10 :: "int \<Rightarrow> rat" where
  "pow10 e = (if 0 \<le> e then 10 ^ nat e else 1 / 10 ^ nat (- e))"

text \<open>
  The exponent part \<open>e\<close>, \<open>E\<close> with an optional sign and at least one digit, read at the
  front of a string; \<open>0\<close> when there is none.
\<close>

definition exponent_part :: "string \<Rightarrow> int" where
  "exponent_part s =
     (if starts_with ''e'' s \<or> starts_with ''E'' s then
        (let r = tl s;
             neg = starts_with ''-'' r;
             u = (if starts_with ''-'' r \<or> starts_with ''+'' r then tl r else r);
             ds = takeWhile is_digit u
         in if ds = [] then 0
            else if neg then - int (digits_val ds) else int (digits_val ds))
      else 0)"

text \<open>
  \<open>parseFloat\<close> on a string: leading white space is dropped, then the longest prefix
  that is a signed decimal literal (\<open>Infinity\<close>, digits with an optional fraction and
  exponent, or a fraction alone) is read, and the result is the double nearest to its
  value; NaN when there is no such prefix.
\<close>

definition parseFloat_string :: "string \<Rightarrow> jsnum" where
  "parseFloat_string s =
     (let t = dropWhile is_ws s;
          neg = starts_with ''-'' t;
          u = (if starts_with ''-'' t \<or> starts_with ''+'' t then tl t else t)
      in if starts_with ''Infinity'' u then (if neg then NInf else PInf)
         else
           (let ip = takeWhile is_digit u;
                r1 = dropWhile is_digit u;
                fp = (if starts_with ''.'' r1 then takeWhile is_digit (tl r1) else []);
                r2 = (if starts_with ''.'' r1 then dropWhile is_digit (tl r1) else r1)
            in if ip = [] \<and> fp = [] then NaN
               else
                 (let m = of_nat (digits_val ip) + of_nat (digits_val fp) / 10 ^ length fp;
                      v = m * pow10 (exponent_part r2)
                  in round64 (if neg then - v else v))))"

text \<open>
  \<open>parseFloat\<close> on a value: the argument is converted to a string first. A number
  prints and parses back to itself; \<open>undefined\<close>, \<open>null\<close>, \<open>true\<close> and \<open>false\<close>
  print as words that start no decimal literal.
\<close>

fun parseFloat :: "jsval \<Rightarrow> jsnum" where
  "parseFloat (Str s) = parseFloat_string s"
| "parseFloat (Num n) = n"
| "parseFloat v = NaN"

definition hex_val :: "char \<Rightarrow> nat option" where
  "hex_val c =
     (let n = (of_char c :: nat)
      in if 48 \<le> n \<and> n \<le> 57 then Some (n - 48)
         else if 97 \<le> n \<and> n \<le> 102 then Some (n - 87)
         else if 65 \<le> n \<and> n \<le> 70 then Some (n - 55)
         else None)"

text \<open>
  \<open>parseInt\<close> with no radix: white space, a sign, an optional \<open>0x\<close> that selects base
  16, then the longest run of digits of the base; \<open>None\<close> is NaN.
\<close>

definition parseInt :: "string \<Rightarrow> int option" where
  "parseInt s =
     (let t = dropWhile is_ws s;
          neg = starts_with ''-'' t;
          u = (if starts_with ''-'' t \<or> starts_with ''+'' t then tl t else t);
          hex = (starts_with ''0x'' u \<or> starts_with ''0X'' u);
          z = (if hex then takeWhile (\<lambda>c. hex_val c \<noteq> None) (drop 2 u)
               else takeWhile is_digit u);
          n = (if hex then foldl (\<lambda>a c. 16 * a + (case hex_val c of Some d \<Rightarrow> d | None \<Rightarrow> 0)) 0 z else digits_val z)
      in if z = [] then None else Some (if neg then - int n else int n))"

section \<open>Handlers of the expense collection\<close>

text \<open>\<open>Date.now()\<close> is read from the clock: the handler takes it as \<open>now\<close>.\<close>

definition addExpense :: "int \<Rightarrow> draft \<Rightarrow> app \<Rightarrow> app" where
  "addExpense now expense s =
     s\<lparr>expenses := expenses s @
          [\<lparr>name = name expense, amount = amount expense, dueDate = dueDate expense,
            category = category expense, id' = now, paid = False\<rparr>],
       isFormOpen := False\<rparr>"

definition updateExpense :: "expense \<Rightarrow> app \<Rightarrow> app" where
  "updateExpense updatedExpense s =
     s\<lparr>expenses := map (\<lambda>exp. if id' exp = id' updatedExpense then updatedExpense else exp)
                        (expenses s),
       editingExpense := None,
       isFormOpen := False\<rparr>"

text \<open>\<open>window.confirm\<close> asks the user: its answer is the argument \<open>confirmed\<close>.\<close>

definition deleteExpense :: "bool \<Rightarrow> int \<Rightarrow> app \<Rightarrow> app" where
  "deleteExpense confirmed i s =
     (if confirmed then s\<lparr>expenses := filter (\<lambda>exp. id' exp \<noteq> i) (expenses s)\<rparr> else s)"

definition togglePaid :: "int \<Rightarrow> app \<Rightarrow> app" where
  "togglePaid i s =
     s\<lparr>expenses := map (\<lambda>exp. if id' exp = i then exp\<lparr>paid := \<not> paid exp\<rparr> else exp)
                        (expenses s)\<rparr>"

definition handleEdit :: "expense \<Rightarrow> app \<Rightarrow> app" where
  "handleEdit expense s = s\<lparr>editingExpense := Some expense, isFormOpen := True\<rparr>"

section \<open>The expense form\<close>

text \<open>
  \<open>handleSubmit\<close> of \<open>ExpenseForm\<close>. The form's cells \<open>name\<close>, \<open>amount\<close>,
  \<open>dueDate\<close> and \<open>category\<close> are the draft \<open>f\<close>; the prop \<open>existingExpense\<close> is
  \<open>None\<close> when a new expense is entered. The result is the \<open>error\<close> cell and the state
  of \<open>App\<close> after the callback \<open>onUpdate\<close> or \<open>onAdd\<close>, if one was called.
\<close>

definition handleSubmit :: "int \<Rightarrow> expense option \<Rightarrow> draft \<Rightarrow> app \<Rightarrow> string \<times> app" where
  "handleSubmit now existingExpense f s =
     (if name f = [] \<or> \<not> truthy (amount f) \<or> dueDate f = [] \<or> category f = []
      then (''All fields are required.'', s)
      else if js_le (parseFloat (amount f)) (Fin 0)
      then (''Amount must be greater than zero.'', s)
      else ([],
        (case existingExpense of
           Some e \<Rightarrow>
             updateExpense (e\<lparr>name := name f, amount := amount f, dueDate := dueDate f,
                              category := category f\<rparr>) s
         | None \<Rightarrow> addExpense now f s)))"

text \<open>
  The categories \<open>App\<close> offers, and the cells of the form when it opens: each is
  \<open>existingExpense?.field || ''\<close>, the category falling back to the first of the
  categories the form was given.
\<close>

definition categories :: "string list" where
  "categories = [''All'', ''Utilities'', ''Credit Card'', ''Groceries'', ''Rent/Mortgage'',
                 ''Transportation'', ''Entertainment'', ''Other'']"

definition form_cells :: "expense option \<Rightarrow> string list \<Rightarrow> draft" where
  "form_cells existingExpense cats =
     (let first = (case cats of [] \<Rightarrow> [] | c # _ \<Rightarrow> c)
      in case existingExpense of
           None \<Rightarrow> \<lparr>name = [], amount = Str [], dueDate = [], category = first\<rparr>
         | Some e \<Rightarrow>
             \<lparr>name = name e,
              amount = (if truthy (amount e) then amount e else Str []),
              dueDate = dueDate e,
              category = (if category e = [] then first else category e)\<rparr>)"

section \<open>Filtering\<close>

text \<open>
  \<open>new Date(v)\<close> followed by \<open>getFullYear()\<close> and \<open>getMonth()\<close> is the parameter
  \<open>D\<close>: the local year and the zero-based local month of the date the runtime reads
  from the string, or \<open>None\<close> for an Invalid Date, whose two getters return NaN. Which
  strings a runtime reads beyond the ISO format, and its time zone, are left to it.
\<close>

type_synonym date_reader = "string \<Rightarrow> (int \<times> int) option"

text \<open>\<open>a === b\<close> for two numbers that are integers or NaN (\<open>None\<close>).\<close>

fun num_eq :: "int option \<Rightarrow> int option \<Rightarrow> bool" where
  "num_eq (Some a) (Some b) = (a = b)"
| "num_eq a b = False"

definition filteredExpenses ::
  "date_reader \<Rightarrow> expense list \<Rightarrow> string \<Rightarrow> string \<Rightarrow> string \<Rightarrow> expense list" where
  "filteredExpenses D es categoryFilter' monthFilter' yearFilter' =
     filter (\<lambda>expense.
       if dueDate expense = [] then False
       else
         (let expenseDate = D (dueDate expense);
              expenseMonth = map_option snd expenseDate;
              expenseYear = map_option fst expenseDate;
              categoryMatch = (categoryFilter' = ''All'' \<or> category expense = categoryFilter');
              yearMatch = (yearFilter' = ''All'' \<or> num_eq expenseYear (parseInt yearFilter'));
              monthMatch = (monthFilter' = ''All'' \<or> num_eq expenseMonth (parseInt monthFilter'))
          in categoryMatch \<and> yearMatch \<and> monthMatch)) es"

text \<open>
  A reader for the examples: a runtime in the UTC time zone that reads the date-only
  ISO form \<open>YYYY-MM-DD\<close> and nothing else.
\<close>

definition days_in_month :: "nat \<Rightarrow> nat \<Rightarrow> nat" where
  "days_in_month y m =
     (if m = 2 then (if y mod 4 = 0 \<and> (y mod 100 \<noteq> 0 \<or> y mod 400 = 0) then 29 else 28)
      else if m \<in> {4, 6, 9, 11} then 30 else 31)"

definition iso_date :: date_reader where
  "iso_date s =
     (if length s = 10 \<and> s ! 4 = CHR ''-'' \<and> s ! 7 = CHR ''-''
         \<and> list_all is_digit (take 4 s) \<and> list_all is_digit (take 2 (drop 5 s))
         \<and> list_all is_digit (drop 8 s)
      then
        (let y = digits_val (take 4 s);
             m = digits_val (take 2 (drop 5 s));
             d = digits_val (drop 8 s)
         in if 1 \<le> m \<and> m \<le> 12 \<and> 1 \<le> d \<and> d \<le> days_in_month y m
            then Some (int y, int m - 1) else None)
      else None)"

section \<open>Aggregation\<close>

definition totalExpenses :: "expense list \<Rightarrow> jsnum" where
  "totalExpenses fs =
     foldl (\<lambda>sum exp. js_add sum (parseFloat (or0 (amount exp)))) (Fin 0) fs"



text \<open>
  The chart's entries \<open>{ name, value }\<close> are pairs. \<open>existingCategory.value += n\<close>
  changes the entry that \<open>acc.find\<close> returned, the first one with that name, in place.
\<close>

type_synonym entry = "string \<times> jsnum"

fun add_to_first :: "string \<Rightarrow> jsnum \<Rightarrow> entry list \<Rightarrow> entry list" where
  "add_to_first c n [] = []"
| "add_to_first c n (item # acc) =
     (if fst item = c then (fst item, js_add (snd item) n) # acc
      else item # add_to_first c n acc)"

definition chart_step :: "entry list \<Rightarrow> expense \<Rightarrow> entry list" where
  "chart_step acc expense =
     (let numericAmount = parseFloat (amount expense)
      in if isNaN numericAmount then acc
         else
           (case find (\<lambda>item. fst item = category expense) acc of
              Some existingCategory \<Rightarrow> add_to_first (category expense) numericAmount acc
            | None \<Rightarrow> acc @ [(category expense, numericAmount)]))"

definition chartData :: "expense list \<Rightarrow> entry list" where
  "chartData es = foldl chart_step [] es"

text \<open>The user's intents on the collection, and a session as a list of them.\<close>

datatype intent =
  Add int draft
  | Update expense
  | Delete bool int
  | Toggle int

fun perform :: "intent \<Rightarrow> app \<Rightarrow> app" where
  "perform (Add now d) s = addExpense now d s"
| "perform (Update u) s = updateExpense u s"
| "perform (Delete confirmed i) s = deleteExpense confirmed i s"
| "perform (Toggle i) s = togglePaid i s"

fun session :: "intent list \<Rightarrow> app \<Rightarrow> app" where
  "session [] s = s"
| "session (a # as) s = session as (perform a s)"

text \<open>
  Every \<open>Add\<close> of the session happens at a timestamp that is not the id of a record of the
  collection at that moment.
\<close>

fun fresh_adds :: "intent list \<Rightarrow> app \<Rightarrow> bool" where
  "fresh_adds [] s = True"
| "fresh_adds (Add now d # as) s =
     (now \<notin> set (map id' (expenses s)) \<and> fresh_adds as (perform (Add now d) s))"
| "fresh_adds (Update u # as) s = fresh_adds as (perform (Update u) s)"
| "fresh_adds (Delete confirmed i # as) s = fresh_adds as (perform (Delete confirmed i) s)"
| "fresh_adds (Toggle i # as) s = fresh_adds as (perform (Toggle i) s)"

section \<open>Loading the stored collection\<close>

text \<open>
  A JSON value. A string is its sequence of code units; a number is taken exactly; an
  object keeps its members as written.
\<close>

datatype json =
  JNull
  | JBool bool
  | JNumber rat
  | JString "nat list"
  | JArray "json list"
  | JObject "(nat list \<times> json) list"

datatype token =
  LBrace | RBrace | LBrack | RBrack | Colon | Comma
  | TString "nat list"
  | TAtom json

definition json_ws :: "char \<Rightarrow> bool" where
  "json_ws c = ((of_char c :: nat) \<in> {9, 10, 13, 32})"

text \<open>The characters of the literals \<open>null\<close>, \<open>true\<close>, \<open>false\<close> and of numbers.\<close>

definition atom_char :: "char \<Rightarrow> bool" where
  "atom_char c =
     (let n = (of_char c :: nat)
      in (48 \<le> n \<and> n \<le> 57) \<or> (97 \<le> n \<and> n \<le> 122) \<or> (65 \<le> n \<and> n \<le> 90)
         \<or> n \<in> {43, 45, 46})"

definition punct :: "char \<Rightarrow> token option" where
  "punct c =
     (let n = (of_char c :: nat)
      in if n = 123 then Some LBrace else if n = 125 then Some RBrace
         else if n = 91 then Some LBrack else if n = 93 then Some RBrack
         else if n = 58 then Some Colon else if n = 44 then Some Comma
         else None)"

text \<open>
  A JSON number: an optional minus, an integer part without a leading zero, an optional
  fraction and an optional exponent, each of the two with at least one digit, and
  nothing after them.
\<close>

definition json_number :: "string \<Rightarrow> rat option" where
  "json_number s =
     (let neg = starts_with ''-'' s;
          u = (if neg then tl s else s);
          ip = takeWhile is_digit u;
          r1 = dropWhile is_digit u;
          has_frac = starts_with ''.'' r1;
          fp = (if has_frac then takeWhile is_digit (tl r1) else []);
          r2 = (if has_frac then dropWhile is_digit (tl r1) else r1);
          has_exp = (starts_with ''e'' r2 \<or> starts_with ''E'' r2);
          r3 = (if has_exp then tl r2 else r2);
          eneg = starts_with ''-'' r3;
          r4 = (if has_exp \<and> (starts_with ''-'' r3 \<or> starts_with ''+'' r3) then tl r3 else r3);
          ed = (if has_exp then takeWhile is_digit r4 else []);
          r5 = (if has_exp then dropWhile is_digit r4 else r4);
          m = of_nat (digits_val ip) + of_nat (digits_val fp) / 10 ^ length fp;
          v = m * pow10 (if eneg then - int (digits_val ed) else int (digits_val ed))
      in if ip = [] then None
         else if 1 < length ip \<and> starts_with ''0'' ip then None
         else if has_frac \<and> fp = [] then None
         else if has_exp \<and> ed = [] then None
         else if r5 \<noteq> [] then None
         else Some (if neg then - v else v))"

definition atom :: "string \<Rightarrow> token option" where
  "atom w =
     (if w = ''null'' then Some (TAtom JNull)
      else if w = ''true'' then Some (TAtom (JBool True))
      else if w = ''false'' then Some (TAtom (JBool False))
      else map_option (\<lambda>r. TAtom (JNumber r)) (json_number w))"

definition hex4 :: "char \<Rightarrow> char \<Rightarrow> char \<Rightarrow> char \<Rightarrow> nat option" where
  "hex4 a b c d =
     (case (hex_val a, hex_val b, hex_val c, hex_val d) of
        (Some h1, Some h2, Some h3, Some h4) \<Rightarrow> Some (((h1 * 16 + h2) * 16 + h3) * 16 + h4)
      | _ \<Rightarrow> None)"

text \<open>The code unit that a one-letter escape stands for.\<close>

definition escape :: "char \<Rightarrow> nat option" where
  "escape c =
     (let n = (of_char c :: nat)
      in if n = 34 \<or> n = 92 \<or> n = 47 then Some n
         else if n = 98 then Some 8 else if n = 102 then Some 12
         else if n = 110 then Some 10 else if n = 114 then Some 13
         else if n = 116 then Some 9 else None)"

text \<open>
  The tokens of a text: \<open>lex\<close> between tokens, \<open>lex_string\<close> inside a string after its
  opening quote, \<open>lex_escape\<close> after a backslash, \<open>lex_atom\<close> inside a literal or number.
\<close>

fun lex :: "string \<Rightarrow> token list option"
  and lex_string :: "nat list \<Rightarrow> string \<Rightarrow> token list option"
  and lex_escape :: "nat list \<Rightarrow> string \<Rightarrow> token list option"
  and lex_atom :: "string \<Rightarrow> string \<Rightarrow> token list option" where
  "lex [] = Some []"
| "lex (c # cs) =
     (if json_ws c then lex cs
      else if (of_char c :: nat) = 34 then lex_string [] cs
      else if atom_char c then lex_atom [c] cs
      else (case punct c of
              Some t \<Rightarrow> map_option (Cons t) (lex cs)
            | None \<Rightarrow> None))"
| "lex_string acc [] = None"
| "lex_string acc (c # cs) =
     (if (of_char c :: nat) = 34 then map_option (Cons (TString acc)) (lex cs)
      else if (of_char c :: nat) = 92 then lex_escape acc cs
      else if (of_char c :: nat) < 32 then None
      else lex_string (acc @ [of_char c]) cs)"
| "lex_escape acc [] = None"
| "lex_escape acc (c # cs) =
     (if (of_char c :: nat) = 117 then
        (case cs of
           h1 # h2 # h3 # h4 # rest \<Rightarrow>
             (case hex4 h1 h2 h3 h4 of
                Some n \<Rightarrow> lex_string (acc @ [n]) rest
              | None \<Rightarrow> None)
         | _ \<Rightarrow> None)
      else (case escape c of
              Some n \<Rightarrow> lex_string (acc @ [n]) cs
            | None \<Rightarrow> None))"
| "lex_atom w [] = map_option (\<lambda>t. [t]) (atom w)"
| "lex_atom w (c # cs) =
     (if atom_char c then lex_atom (w @ [c]) cs
      else (case atom w of
              None \<Rightarrow> None
            | Some a \<Rightarrow>
                map_option (Cons a)
                  (if json_ws c then lex cs
                   else if (of_char c :: nat) = 34 then lex_string [] cs
                   else (case punct c of
                           Some t \<Rightarrow> map_option (Cons t) (lex cs)
                         | None \<Rightarrow> None))))"

text \<open>
  The parser reads the tokens one at a time. Its stack holds the arrays and objects that
  are open: an array with its elements so far, an object with its members so far, and
  an object that has read a key and waits for the value.
\<close>

datatype frame =
  FArr "json list"
  | FObj "(nat list \<times> json) list"
  | FKey "(nat list \<times> json) list" "nat list"

datatype mode =
  WantValue | WantValueOrEnd | WantKey | WantKeyOrEnd | WantColon | HaveValue json

definition start_value :: "frame list \<Rightarrow> token \<Rightarrow> (mode \<times> frame list) option" where
  "start_value st t =
     (case t of
        TAtom v \<Rightarrow> Some (HaveValue v, st)
      | TString x \<Rightarrow> Some (HaveValue (JString x), st)
      | LBrack \<Rightarrow> Some (WantValueOrEnd, FArr [] # st)
      | LBrace \<Rightarrow> Some (WantKeyOrEnd, FObj [] # st)
      | _ \<Rightarrow> None)"

definition start_key :: "frame list \<Rightarrow> token \<Rightarrow> (mode \<times> frame list) option" where
  "start_key st t =
     (case (t, st) of
        (TString k, FObj ms # st') \<Rightarrow> Some (WantColon, FKey ms k # st')
      | _ \<Rightarrow> None)"

definition step :: "mode \<Rightarrow> frame list \<Rightarrow> token \<Rightarrow> (mode \<times> frame list) option" where
  "step m st t =
     (case m of
        WantValue \<Rightarrow> start_value st t
      | WantValueOrEnd \<Rightarrow>
          (case (t, st) of
             (RBrack, FArr es # st') \<Rightarrow> Some (HaveValue (JArray es), st')
           | _ \<Rightarrow> start_value st t)
      | WantKey \<Rightarrow> start_key st t
      | WantKeyOrEnd \<Rightarrow>
          (case (t, st) of
             (RBrace, FObj ms # st') \<Rightarrow> Some (HaveValue (JObject ms), st')
           | _ \<Rightarrow> start_key st t)
      | WantColon \<Rightarrow> (case t of Colon \<Rightarrow> Some (WantValue, st) | _ \<Rightarrow> None)
      | HaveValue v \<Rightarrow>
          (case (t, st) of
             (Comma, FArr es # st') \<Rightarrow> Some (WantValue, FArr (es @ [v]) # st')
           | (RBrack, FArr es # st') \<Rightarrow> Some (HaveValue (JArray (es @ [v])), st')
           | (Comma, FKey ms k # st') \<Rightarrow> Some (WantKey, FObj (ms @ [(k, v)]) # st')
           | (RBrace, FKey ms k # st') \<Rightarrow> Some (HaveValue (JObject (ms @ [(k, v)])), st')
           | _ \<Rightarrow> None))"

fun parse_tokens :: "mode \<Rightarrow> frame list \<Rightarrow> token list \<Rightarrow> json option" where
  "parse_tokens m st [] = (case (m, st) of (HaveValue v, []) \<Rightarrow> Some v | _ \<Rightarrow> None)"
| "parse_tokens m st (t # ts) =
     (case step m st t of
        Some (m', st') \<Rightarrow> parse_tokens m' st' ts
      | None \<Rightarrow> None)"

datatype exception = SyntaxError | SecurityError

text \<open>\<open>JSON.parse\<close> on a string: the value, or the \<open>SyntaxError\<close> it throws.\<close>

definition JSON_parse :: "string \<Rightarrow> exception + json" where
  "JSON_parse s =
     (case lex s of
        None \<Rightarrow> Inl SyntaxError
      | Some ts \<Rightarrow>
          (case parse_tokens WantValue [] ts of
             None \<Rightarrow> Inl SyntaxError
           | Some v \<Rightarrow> Inr v))"

text \<open>
  The initializer of the \<open>expenses\<close> cell, the specification's \<open>load()\<close>. The storage
  is \<open>Inl e\<close> when reading it throws \<open>e\<close>, and else the map from keys to stored strings;
  \<open>getItem\<close> of an absent key is \<open>null\<close>. The parser is the parameter \<open>P\<close>, which the
  runtime's \<open>JSON.parse\<close> instantiates. The body of the \<open>try\<close> either returns a value or
  throws; the \<open>catch\<close> clause turns every exception into the empty array and one line
  on the console. The result is the value and the lines written to the console.
\<close>

type_synonym storage = "exception + (string \<rightharpoonup> string)"

definition try_body :: "(string \<Rightarrow> exception + json) \<Rightarrow> storage \<Rightarrow> exception + json" where
  "try_body P localStorage =
     (case localStorage of
        Inl e \<Rightarrow> Inl e
      | Inr items \<Rightarrow>
          (case items ''expenses'' of
             None \<Rightarrow> Inr (JArray [])
           | Some savedExpenses \<Rightarrow>
               if savedExpenses \<noteq> [] then P savedExpenses else Inr (JArray [])))"

definition load :: "(string \<Rightarrow> exception + json) \<Rightarrow> storage \<Rightarrow> json \<times> string list" where
  "load P localStorage =
     (case try_body P localStorage of
        Inr v \<Rightarrow> (v, [])
      | Inl error \<Rightarrow> (JArray [], [''Error parsing expenses from localStorage'']))"

section \<open>The aggregation as the specification words it\<close>


fun is_infinite :: "jsnum \<Rightarrow> bool" where
  "is_infinite PInf = True"
| "is_infinite NInf = True"
| "is_infinite n = False"

text \<open>A number that is not negative: a finite one from 0 on, or the positive infinity.\<close>

fun nonneg :: "jsnum \<Rightarrow> bool" where
  "nonneg (Fin v) = (0 \<le> v)"
| "nonneg PInf = True"
| "nonneg n = False"





text \<open>The sum of a sequence of numbers, added in order from the first one.\<close>

fun js_sum :: "jsnum list \<Rightarrow> jsnum" where
  "js_sum [] = Fin 0"
| "js_sum (n # ns) = foldl js_add n ns"

text \<open>
  Two infinities of opposite sign, and a sequence in which, while it is added in order
  to \<open>a\<close>, an infinite number meets a sum that is the opposite infinity.
\<close>

fun opposite :: "jsnum \<Rightarrow> jsnum \<Rightarrow> bool" where
  "opposite PInf NInf = True"
| "opposite NInf PInf = True"
| "opposite a b = False"

fun clashes :: "jsnum \<Rightarrow> jsnum list \<Rightarrow> bool" where
  "clashes a [] = False"
| "clashes a (n # ns) = (opposite a n \<or> clashes (js_add a n) ns)"

fun clash :: "jsnum list \<Rightarrow> bool" where
  "clash [] = False"
| "clash (n # ns) = clashes n ns"

text \<open>The records whose amount is numeric: \<open>parseFloat\<close> of it is not NaN.\<close>

definition numeric :: "expense list \<Rightarrow> expense list" where
  "numeric es = filter (\<lambda>e. \<not> isNaN (parseFloat (amount e))) es"

text \<open>The elements of a list in the order of their first occurrence, each once.\<close>

fun first_seen :: "'a list \<Rightarrow> 'a list" where
  "first_seen [] = []"
| "first_seen (x # xs) = x # first_seen (filter (\<lambda>y. y \<noteq> x) xs)"

text \<open>
  The numeric amounts of a category in the order of the records, and the bucket of the
  category: their sum.
\<close>

definition amounts_of :: "string \<Rightarrow> expense list \<Rightarrow> jsnum list" where
  "amounts_of c es =
     map (\<lambda>e. parseFloat (amount e)) (filter (\<lambda>e. category e = c) (numeric es))"

definition bucket :: "string \<Rightarrow> expense list \<Rightarrow> jsnum" where
  "bucket c es = js_sum (amounts_of c es)"

text \<open>
  The category breakdown of the specification: one entry for each category of a numeric
  record, in first-seen order, holding the bucket of the category.
\<close>

definition categoryBreakdown :: "expense list \<Rightarrow> entry list" where
  "categoryBreakdown es =
     map (\<lambda>c. (c, bucket c es)) (first_seen (map category (numeric es)))"

text \<open>
  What the chart's reduction holds after the records \<open>es\<close> when it started from the
  entries \<open>acc\<close>: the old entries with the amounts of their categories added in order,
  then the categories not yet in \<open>acc\<close>.
\<close>

definition unseen :: "entry list \<Rightarrow> expense list \<Rightarrow> string list" where
  "unseen acc es = filter (\<lambda>c. c \<notin> fst ` set acc) (map category (numeric es))"

definition after :: "entry list \<Rightarrow> expense list \<Rightarrow> entry list" where
  "after acc es =
     map (\<lambda>item. (fst item, foldl js_add (snd item) (amounts_of (fst item) es))) acc
     @ map (\<lambda>c. (c, bucket c es)) (first_seen (unseen acc es))"

section \<open>Example data\<close>

text \<open>The state of \<open>App\<close> when nothing is stored: the initial values of its cells.\<close>

definition app0 :: app where
  "app0 = \<lparr>expenses = [], isFormOpen = False, editingExpense = None,
            categoryFilter = ''All'', monthFilter = ''All'', yearFilter = ''All'',
            isChartVisible = False\<rparr>"

definition rent :: draft where
  "rent = \<lparr>name = ''Rent'', amount = Num (Fin 1000), dueDate = ''2025-01-01'',
            category = ''Rent/Mortgage''\<rparr>"

definition power_bill :: draft where
  "power_bill = \<lparr>name = ''Electricity Bill'', amount = Str ''64.50'', dueDate = ''2025-03-01'',
                  category = ''Utilities''\<rparr>"

text \<open>A record as it can stand in storage: its amount is a word, not a number.\<close>

definition garbled :: expense where
  "garbled = \<lparr>name = ''Water'', amount = Str ''abc'', dueDate = ''2025-03-01'',
               category = ''Utilities'', id' = 7, paid = False\<rparr>"

text \<open>The state of \<open>App\<close> that starts from a storage holding the one record \<open>garbled\<close>.\<close>

definition stored :: app where
  "stored = app0\<lparr>expenses := [garbled]\<rparr>"

text \<open>A stored record whose amount is the word \<open>Infinity\<close>, marked paid.\<close>

definition unbounded :: expense where
  "unbounded = \<lparr>name = ''Loan'', amount = Str ''Infinity'', dueDate = ''2025-03-01'',
                 category = ''Other'', id' = 8, paid = True\<rparr>"


text \<open>Two paid records whose amount is the finite number \<open>1e308\<close>.\<close>

definition huge :: expense where
  "huge = \<lparr>name = ''Estate'', amount = Str ''1e308'', dueDate = ''2025-03-01'',
            category = ''Other'', id' = 31, paid = True\<rparr>"

text \<open>The collection after \<open>rent\<close> was added at time 1000, and after a second add at 2000.\<close>

definition app1 :: app where
  "app1 = addExpense 1000 rent app0"

definition app2 :: app where
  "app2 = addExpense 2000 power_bill app1"

text \<open>Two records of one category, 800 and 200, and a record with no readable date.\<close>

definition rent800 :: expense where
  "rent800 = \<lparr>name = ''Rent'', amount = Num (Fin 800), dueDate = ''2025-03-01'',
               category = ''Rent/Mortgage'', id' = 11, paid = True\<rparr>"

definition rent200 :: expense where
  "rent200 = \<lparr>name = ''Garage'', amount = Str ''200'', dueDate = ''2024-11-01'',
               category = ''Rent/Mortgage'', id' = 12, paid = False\<rparr>"

definition misdated :: expense where
  "misdated = \<lparr>name = ''Gym'', amount = Str ''30'', dueDate = ''not a date'',
                category = ''Other'', id' = 13, paid = False\<rparr>"

definition undated :: expense where
  "undated = \<lparr>name = ''Gym'', amount = Str ''30'', dueDate = [],
               category = ''Other'', id' = 14, paid = False\<rparr>"

text \<open>
  The first record was marked paid and then opened in the form: \<open>ExpenseItem\<close> passes
  the record it shows to \<open>handleEdit\<close>.
\<close>

definition editing :: app where
  "editing = handleEdit (expenses (togglePaid 1000 app2) ! 0) (togglePaid 1000 app2)"

section \<open>Properties of rounding\<close>

lemma pow2_pos: "0 < pow2 e"
  by (simp add: pow2_def)

lemma pow2_powi: "pow2 e = 2 powi e"
  by (simp add: pow2_def power_int_def field_simps)

lemma pow2_add: "pow2 (i + j) = pow2 i * pow2 j"
  by (simp add: pow2_powi power_int_add)

lemma pow2_mono: "i \<le> j \<Longrightarrow> pow2 i \<le> pow2 j"
  by (simp add: pow2_powi power_int_increasing)

lemma pow2_strict_mono: "i < j \<Longrightarrow> pow2 i < pow2 j"
  by (simp add: pow2_powi power_int_strict_increasing)

lemma pow2_nat: "pow2 (int n) = 2 ^ n"
  by (simp add: pow2_def)

lemma ilog2_bounds:
  assumes "0 < a"
  shows "pow2 (ilog2 a) \<le> a \<and> a < pow2 (ilog2 a + 1)"
proof -
  obtain p q where pq: "quotient_of a = (p, q)" by force
  then have q: "0 < q" and a: "a = of_int p / of_int q"
    by (simp_all add: quotient_of_denom_pos quotient_of_div)
  with assms have p: "0 < p" by (simp add: zero_less_divide_iff)
  define bp bq where "bp = bitlen p" and "bq = bitlen q"
  have bp1: "1 \<le> bp" and bq1: "1 \<le> bq"
    using p q by (auto simp: bp_def bq_def bitlen_alt_def)
  from bitlen_bounds [OF p] have "2 ^ nat (bp - 1) \<le> p" "p < 2 ^ nat bp"
    by (simp_all add: bp_def)
  then have "(of_int (2 ^ nat (bp - 1)) :: rat) \<le> of_int p" "(of_int p :: rat) < of_int (2 ^ nat bp)"
    by (simp_all only: of_int_le_iff of_int_less_iff)
  then have P: "pow2 (bp - 1) \<le> of_int p" "of_int p < pow2 bp"
    using bp1 by (simp_all add: pow2_def)
  from bitlen_bounds [OF q] have "2 ^ nat (bq - 1) \<le> q" "q < 2 ^ nat bq"
    by (simp_all add: bq_def)
  then have "(of_int (2 ^ nat (bq - 1)) :: rat) \<le> of_int q" "(of_int q :: rat) < of_int (2 ^ nat bq)"
    by (simp_all only: of_int_le_iff of_int_less_iff)
  then have Q: "pow2 (bq - 1) \<le> of_int q" "of_int q < pow2 bq"
    using bq1 by (simp_all add: pow2_def)
  have qpos: "(0::rat) < of_int q" using q by simp
  have up: "a < pow2 (bp - bq + 1)"
  proof -
    have "of_int p * pow2 (bq - 1) < pow2 bp * of_int q"
      using P(2) Q(1) qpos pow2_pos [of "bq - 1"] pow2_pos [of bp]
      by (meson less_le_trans mult_le_cancel_left_pos mult_strict_right_mono)
    moreover have "pow2 (bp - bq + 1) * pow2 (bq - 1) = pow2 bp"
      by (simp add: pow2_add [symmetric])
    ultimately have "of_int p * pow2 (bq - 1) < pow2 (bp - bq + 1) * pow2 (bq - 1) * of_int q"
      by simp
    then have "of_int p < pow2 (bp - bq + 1) * of_int q"
      using pow2_pos [of "bq - 1"] by (simp add: mult.assoc mult.left_commute [of _ "pow2 (bq - 1)"])
    then show ?thesis using qpos by (simp add: a pos_divide_less_eq)
  qed
  have lo: "pow2 (bp - bq - 1) < a"
  proof -
    have "pow2 (bp - 1) * of_int q < of_int p * pow2 bq"
      using P(1) Q(2) qpos pow2_pos [of "bp - 1"] pow2_pos [of bq] p
      by (meson le_less_trans mult_less_cancel_left_pos mult_right_mono less_imp_le of_int_0_less_iff)
    moreover have "pow2 (bp - bq - 1) * pow2 bq = pow2 (bp - 1)"
      by (simp add: pow2_add [symmetric])
    ultimately have "pow2 (bp - bq - 1) * pow2 bq * of_int q < of_int p * pow2 bq"
      by simp
    then have "pow2 (bp - bq - 1) * of_int q < of_int p"
      using pow2_pos [of bq] by (simp add: mult.assoc mult.commute [of "pow2 bq"])
    then show ?thesis using qpos by (simp add: a pos_less_divide_eq)
  qed
  show ?thesis
    using up lo by (auto simp: ilog2_def pq bp_def bq_def Let_def)
qed

lemma ilog2_unique:
  assumes "0 < a" and "pow2 L \<le> a" and "a < pow2 (L + 1)"
  shows "ilog2 a = L"
proof (rule ccontr)
  assume ne: "ilog2 a \<noteq> L"
  from ilog2_bounds [OF assms(1)] have b: "pow2 (ilog2 a) \<le> a" "a < pow2 (ilog2 a + 1)" by simp_all
  show False
  proof (cases "ilog2 a < L")
    case True
    then have "pow2 (ilog2 a + 1) \<le> pow2 L" by (intro pow2_mono) simp
    with b(2) assms(2) show False by simp
  next
    case False
    with ne have "L + 1 \<le> ilog2 a" by simp
    then have "pow2 (L + 1) \<le> pow2 (ilog2 a)" by (rule pow2_mono)
    with b(1) assms(3) show False by simp
  qed
qed


lemma round64_minus: "round64 (- x) = js_neg (round64 x)"
  by (simp add: round64_def Let_def)

lemma round64_not_NaN: "round64 x \<noteq> NaN"
  by (simp add: round64_def Let_def)

lemma round_half_even_int: "round_half_even (of_int z) = z"
  by (simp add: round_half_even_def)

lemma round_half_even_near:
  assumes "of_int m - 1 / 2 < q" and "q < of_int m + 1 / 2"
  shows "round_half_even q = m"
proof -
  have "\<lfloor>q\<rfloor> = m \<or> \<lfloor>q\<rfloor> = m - 1" using assms by linarith
  then show ?thesis
  proof
    assume f: "\<lfloor>q\<rfloor> = m"
    with assms(2) show ?thesis by (simp add: round_half_even_def)
  next
    assume f: "\<lfloor>q\<rfloor> = m - 1"
    with assms(1) have "1 / 2 < q - of_int (m - 1)" by simp
    with f show ?thesis by (simp add: round_half_even_def)
  qed
qed

lemma round_half_even_ge:
  assumes "of_int z \<le> q"
  shows "z \<le> round_half_even q"
proof -
  from assms have "z \<le> \<lfloor>q\<rfloor>" by (simp add: le_floor_iff)
  then show ?thesis by (auto simp: round_half_even_def Let_def)
qed

lemma round_half_even_nonneg: "0 \<le> q \<Longrightarrow> 0 \<le> round_half_even q"
  using round_half_even_ge [of 0 q] by simp

lemma round64_pos:
  assumes "0 < a" and "pow2 L \<le> a" and "a < pow2 (L + 1)"
  shows "round64 a =
     (if pow2 1024 \<le> of_int (round_half_even (a / pow2 (max (- 1074) (L - 52))))
                        * pow2 (max (- 1074) (L - 52))
      then PInf
      else Fin (of_int (round_half_even (a / pow2 (max (- 1074) (L - 52))))
                 * pow2 (max (- 1074) (L - 52))))"
  using assms(1) by (simp add: round64_def Let_def ilog2_unique [OF assms])

lemma round64_near:
  assumes "0 < a" and "pow2 L \<le> a" and "a < pow2 (L + 1)"
    and "e = max (- 1074) (L - 52)"
    and "(of_int m - 1 / 2) * pow2 e < a" and "a < (of_int m + 1 / 2) * pow2 e"
    and "of_int m * pow2 e < pow2 1024"
  shows "round64 a = Fin (of_int m * pow2 e)"
proof -
  have "of_int m - 1 / 2 < a / pow2 e" "a / pow2 e < of_int m + 1 / 2"
    using assms(5,6) pow2_pos [of e] by (simp_all add: pos_less_divide_eq pos_divide_less_eq)
  then have "round_half_even (a / pow2 e) = m" by (rule round_half_even_near)
  then show ?thesis
    using round64_pos [OF assms(1-3)] assms(4,7) by simp
qed

lemma round64_exact:
  assumes "x = of_int N * pow2 g" and "0 < N" and "N \<le> 2 ^ 53" and "- 1074 \<le> g"
    and "x < pow2 1024"
  shows "round64 x = Fin x"
proof -
  define b where "b = bitlen N - 1"
  have b0: "0 \<le> b" using assms(2) by (auto simp: b_def bitlen_alt_def)
  from bitlen_bounds [OF assms(2)] have lo: "(2::int) ^ nat b \<le> N" and hi: "N < 2 ^ nat (b + 1)"
    by (simp_all add: b_def)
  from lo assms(3) have "(2::int) ^ nat b \<le> 2 ^ 53" by simp
  then have "nat b \<le> 53"
    by (simp only: power_le_imp_le_exp [of "2::int"] one_less_numeral_iff semiring_norm)
  then have b53: "b \<le> 53" by simp
  have "(of_int (2 ^ nat b) :: rat) \<le> of_int N" "(of_int N :: rat) < of_int (2 ^ nat (b + 1))"
    using lo hi by (simp_all only: of_int_le_iff of_int_less_iff)
  then have N: "pow2 b \<le> of_int N" "of_int N < pow2 (b + 1)"
    using b0 by (simp_all add: pow2_def)
  have xpos: "0 < x" using assms(1,2) pow2_pos [of g] by simp
  have xlo: "pow2 (b + g) \<le> x" 
    using N(1) pow2_pos [of g] by (simp add: assms(1) pow2_add)
  have xhi: "x < pow2 (b + g + 1)"
  proof -
    have "of_int N * pow2 g < pow2 (b + 1) * pow2 g"
      using N(2) pow2_pos [of g] by simp
    then show ?thesis by (simp add: assms(1) pow2_add [symmetric] add.commute add.left_commute)
  qed
  define e where "e = max (- 1074) (b + g - 52)"
  have r: "round64 x =
     (if pow2 1024 \<le> of_int (round_half_even (x / pow2 e)) * pow2 e then PInf
      else Fin (of_int (round_half_even (x / pow2 e)) * pow2 e))"
    using round64_pos [OF xpos xlo xhi] by (simp add: e_def)
  have v: "of_int (round_half_even (x / pow2 e)) * pow2 e = x"
  proof (cases "e \<le> g")
    case True
    define d where "d = nat (g - e)"
    have "pow2 g = pow2 (int d) * pow2 e"
      using True by (simp add: d_def pow2_add [symmetric])
    then have "x / pow2 e = of_int (N * 2 ^ d)"
      using pow2_pos [of e] by (simp add: assms(1) pow2_nat)
    then have "round_half_even (x / pow2 e) = N * 2 ^ d"
      by (simp only: round_half_even_int)
    moreover have "of_int (N * 2 ^ d) * pow2 e = x"
      using True by (simp add: assms(1) d_def pow2_nat [symmetric] pow2_add [symmetric] mult.assoc)
    ultimately show ?thesis by simp
  next
    case False
    then have "g < b + g - 52" using assms(4) by (simp add: e_def)
    with b53 have b: "b = 53" by simp
    with lo assms(3) have Nv: "N = 2 ^ 53" by simp
    have ev: "e = g + 1" using b assms(4) by (simp add: e_def)
    have "pow2 1 = 2" by (simp add: pow2_def)
    then have e2: "pow2 e = 2 * pow2 g" by (simp add: ev pow2_add)
    then have "x / pow2 e = of_int (2 ^ 52)"
      using pow2_pos [of g] by (simp add: assms(1) Nv)
    then have "round_half_even (x / pow2 e) = 2 ^ 52"
      by (simp only: round_half_even_int)
    then show ?thesis by (simp add: assms(1) Nv e2)
  qed
  show ?thesis using assms(5) by (simp add: r v)
qed

lemma round64_overflow:
  assumes "pow2 1024 \<le> a"
  shows "round64 a = PInf"
proof -
  have apos: "0 < a" using assms pow2_pos [of 1024] by simp
  define L where "L = ilog2 a"
  from ilog2_bounds [OF apos] have lo: "pow2 L \<le> a" and hi: "a < pow2 (L + 1)"
    by (simp_all add: L_def)
  have "pow2 1024 < pow2 (L + 1)" using assms hi by simp
  then have "1024 < L + 1" using pow2_mono [of "L + 1" 1024] by (cases "1024 < L + 1") auto
  then have L: "1024 \<le> L" by simp
  define e where "e = max (- 1074) (L - 52)"
  have e: "e = L - 52" using L by (simp add: e_def)
  have "pow2 L = of_int (2 ^ 52) * pow2 e"
    by (simp add: e pow2_nat [of 52, simplified, symmetric] pow2_add [symmetric])
  with lo have "of_int (2 ^ 52) \<le> a / pow2 e"
    using pow2_pos [of e] by (simp add: pos_le_divide_eq)
  then have "2 ^ 52 \<le> round_half_even (a / pow2 e)" by (rule round_half_even_ge)
  then have "(of_int (2 ^ 52) :: rat) \<le> of_int (round_half_even (a / pow2 e))"
    by (simp only: of_int_le_iff)
  then have "of_int (2 ^ 52) * pow2 e \<le> of_int (round_half_even (a / pow2 e)) * pow2 e"
    using pow2_pos [of e] by simp
  then have "pow2 L \<le> of_int (round_half_even (a / pow2 e)) * pow2 e"
    by (simp only: \<open>pow2 L = of_int (2 ^ 52) * pow2 e\<close>)
  moreover have "pow2 1024 \<le> pow2 L" using L by (rule pow2_mono)
  ultimately have "pow2 1024 \<le> of_int (round_half_even (a / pow2 e)) * pow2 e" by simp
  then show ?thesis using round64_pos [OF apos lo hi] by (simp add: e_def)
qed

lemma round64_underflow:
  assumes "0 < a" and "a < pow2 (- 1075)"
  shows "round64 a = Fin 0"
proof -
  define L where "L = ilog2 a"
  from ilog2_bounds [OF assms(1)] have lo: "pow2 L \<le> a" and hi: "a < pow2 (L + 1)"
    by (simp_all add: L_def)
  have "pow2 L < pow2 (- 1075)" using lo assms(2) by simp
  then have "L < - 1075" using pow2_mono [of "- 1075" L] by (cases "L < - 1075") auto
  then have e: "max (- 1074) (L - 52) = - 1074" by simp
  have "pow2 (- 1075) = 1 / 2 * pow2 (- 1074)" by (simp add: pow2_def)
  with assms(2) have "a / pow2 (- 1074) < 0 + 1 / 2"
    using pow2_pos [of "- 1074"] by (simp add: pos_divide_less_eq)
  moreover have "0 - 1 / 2 < a / pow2 (- 1074)"
    using assms(1) pow2_pos [of "- 1074"] by (simp add: less_trans [of _ 0])
  ultimately have "round_half_even (a / pow2 (- 1074)) = 0"
    using round_half_even_near [of 0 "a / pow2 (- 1074)"] by simp
  then show ?thesis
    using round64_pos [OF assms(1) lo hi] pow2_pos [of 1024] by (simp add: e)
qed



lemma round64_129_2: "round64 (129 / 2) = Fin (129 / 2)"
  using round64_exact [of "129 / 2" 129 "- 1"] by (simp add: pow2_def)

lemma round64_of_int:
  assumes "\<bar>n\<bar> \<le> 2 ^ 53"
  shows "round64 (of_int n) = Fin (of_int n)"
proof -
  have pos: "round64 (of_int N) = Fin (of_int N)" if "0 < N" "N \<le> 2 ^ 53" for N :: int
  proof -
    have "(of_int N :: rat) \<le> of_int (2 ^ 53)" using that(2) by (simp only: of_int_le_iff)
    moreover have "(of_int (2 ^ 53) :: rat) < pow2 1024" by (simp add: pow2_def)
    ultimately have "(of_int N :: rat) < pow2 1024" by (rule le_less_trans)
    moreover have "(of_int N :: rat) = of_int N * pow2 0" by (simp add: pow2_def)
    ultimately show ?thesis using that by (intro round64_exact [of _ N 0]) simp_all
  qed
  show ?thesis
  proof (cases "0 < n")
    case True
    with assms show ?thesis by (intro pos) simp_all
  next
    case False
    show ?thesis
    proof (cases "n = 0")
      case True
      then show ?thesis by (simp add: round64_def)
    next
      case ne: False
      with False assms have "0 < - n" "- n \<le> 2 ^ 53" by simp_all
      then have "round64 (of_int (- n)) = Fin (of_int (- n))" by (rule pos)
      then have "js_neg (round64 (of_int n)) = Fin (- of_int n)"
        by (simp add: round64_minus)
      then show ?thesis by (cases "round64 (of_int n)") simp_all
    qed
  qed
qed

lemma round64_small:
  "round64 1000 = Fin 1000" "round64 800 = Fin 800" "round64 200 = Fin 200"
  "round64 30 = Fin 30" "round64 1030 = Fin 1030"
  using round64_of_int [of 1000] round64_of_int [of 800] round64_of_int [of 200]
    round64_of_int [of 30] round64_of_int [of 1030]
  by simp_all

section \<open>Properties of the handlers\<close>

lemmas example_defs = app0_def app1_def app2_def rent_def power_bill_def garbled_def
  unbounded_def addExpense_def

lemmas parse_defs = parseFloat_string_def starts_with_def is_ws_def is_digit_def digits_val_def
  digit_val_def exponent_part_def pow10_def

lemma togglePaid_twice: "togglePaid i (togglePaid i s) = s"
proof -
  have "map ((\<lambda>exp. if id' exp = i then exp\<lparr>paid := \<not> paid exp\<rparr> else exp) \<circ>
             (\<lambda>exp. if id' exp = i then exp\<lparr>paid := \<not> paid exp\<rparr> else exp)) xs = xs"
    for xs :: "expense list"
    by (induction xs) auto
  then show ?thesis by (simp add: togglePaid_def)
qed

text \<open>
  Claim C5. For a collection and an id present in it, \<open>togglePaid\<close> applied twice gives
  back the state it started from, so the paid value of the matching record is restored,
  while one application changes the state. One application keeps the length and the
  order of the collection; at every position the paid flag is negated exactly when the
  record's id is the given one, every other field of every record is as before, and the
  rest of the state is untouched.
\<close>

theorem togglePaid_involution_and_frame:
  assumes "i \<in> set (map id' (expenses s))" and "k < length (expenses s)"
  shows "togglePaid i (togglePaid i s) = s
    \<and> togglePaid i s \<noteq> s
    \<and> length (expenses (togglePaid i s)) = length (expenses s)
    \<and> paid (expenses (togglePaid i s) ! k)
        = (if id' (expenses s ! k) = i then \<not> paid (expenses s ! k) else paid (expenses s ! k))
    \<and> (expenses (togglePaid i s) ! k)\<lparr>paid := paid (expenses s ! k)\<rparr> = expenses s ! k
    \<and> (togglePaid i s)\<lparr>expenses := expenses s\<rparr> = s"
proof -
  from assms(1) obtain j where j: "j < length (expenses s)" "id' (expenses s ! j) = i"
    by (auto simp: in_set_conv_nth)
  then have "paid (expenses (togglePaid i s) ! j) \<noteq> paid (expenses s ! j)"
    by (simp add: togglePaid_def)
  then have "togglePaid i s \<noteq> s" by auto
  then show ?thesis
    using assms(2) by (simp add: togglePaid_twice) (simp add: togglePaid_def)
qed

theorem togglePaid_involution_and_frame_witness:
  "1000 \<in> set (map id' (expenses app2)) \<and> (0::nat) < length (expenses app2)
    \<and> togglePaid 1000 (togglePaid 1000 app2) = app2
    \<and> paid (expenses (togglePaid 1000 app2) ! 0)
    \<and> \<not> paid (expenses app2 ! 0)
    \<and> expenses (togglePaid 1000 app2) ! 1 = expenses app2 ! 1"
proof -
  have h1: "1000 \<in> set (map id' (expenses app2))" by (simp add: example_defs)
  have h2: "(0::nat) < length (expenses app2)" by (simp add: example_defs)
  have "expenses (togglePaid 1000 app2) ! 1 = expenses app2 ! 1"
    by (simp add: example_defs togglePaid_def)
  then show ?thesis
    using h1 h2 togglePaid_involution_and_frame [OF h1 h2] by (simp add: example_defs)
qed

text \<open>
  Claim C6. For a collection that holds a record with the id of \<open>u\<close>, \<open>updateExpense u\<close>
  keeps the length of the collection and the id at every position; the position of a
  record with that id now holds \<open>u\<close>, whose fields are the ones submitted, and every
  other position holds the record it held before.
\<close>

theorem updateExpense_in_place:
  assumes "id' u \<in> set (map id' (expenses s))" and "k < length (expenses s)"
  shows "length (expenses (updateExpense u s)) = length (expenses s)
    \<and> expenses (updateExpense u s) ! k
        = (if id' (expenses s ! k) = id' u then u else expenses s ! k)
    \<and> map id' (expenses (updateExpense u s)) = map id' (expenses s)
    \<and> u \<in> set (expenses (updateExpense u s))"
proof -
  from assms(1) obtain e where e: "e \<in> set (expenses s)" "id' e = id' u" by auto
  then have "u \<in> set (expenses (updateExpense u s))"
    by (force simp: updateExpense_def)
  moreover have "map id' (expenses (updateExpense u s)) = map id' (expenses s)"
    by (simp add: updateExpense_def comp_def cong: map_cong)
  ultimately show ?thesis using assms(2) by (simp add: updateExpense_def)
qed

theorem updateExpense_in_place_witness:
  "id' (garbled\<lparr>id' := 2000\<rparr>) \<in> set (map id' (expenses app2))
    \<and> (1::nat) < length (expenses app2)
    \<and> length (expenses (updateExpense (garbled\<lparr>id' := 2000\<rparr>) app2)) = 2
    \<and> expenses (updateExpense (garbled\<lparr>id' := 2000\<rparr>) app2) ! 1 = garbled\<lparr>id' := 2000\<rparr>
    \<and> expenses (updateExpense (garbled\<lparr>id' := 2000\<rparr>) app2) ! 0 = expenses app2 ! 0"
proof -
  have h1: "id' (garbled\<lparr>id' := 2000\<rparr>) \<in> set (map id' (expenses app2))"
    by (simp add: example_defs)
  have h2: "(1::nat) < length (expenses app2)" by (simp add: example_defs)
  have "expenses (updateExpense (garbled\<lparr>id' := 2000\<rparr>) app2) ! 0 = expenses app2 ! 0"
    by (simp add: example_defs updateExpense_def)
  then show ?thesis
    using h1 h2 updateExpense_in_place [OF h1 h2] by (simp add: example_defs)
qed

lemma ids_updateExpense: "map id' (expenses (updateExpense u s)) = map id' (expenses s)"
  by (simp add: updateExpense_def comp_def cong: map_cong)

lemma ids_togglePaid: "map id' (expenses (togglePaid i s)) = map id' (expenses s)"
  by (auto simp: togglePaid_def)

lemma ids_deleteExpense:
  "map id' (expenses (deleteExpense c i s))
     = (if c then filter (\<lambda>j. j \<noteq> i) (map id' (expenses s)) else map id' (expenses s))"
  by (auto simp: deleteExpense_def filter_map comp_def)

lemma ids_addExpense: "map id' (expenses (addExpense now d s)) = map id' (expenses s) @ [now]"
  by (auto simp: addExpense_def)

text \<open>
  Claim C9, as stated: \<open>addExpense\<close> always gives the new record an id that no record of
  the collection has. It gives it the clock's value and compares it with nothing: a
  second add at the time 1000 of the first leaves two records with the id 1000.
\<close>

theorem addExpense_repeats_id:
  "distinct (map id' (expenses app1))
    \<and> \<not> distinct (map id' (expenses (addExpense 1000 power_bill app1)))
    \<and> map id' (expenses (addExpense 1000 power_bill app1)) = [1000, 1000]"
  by (simp add: example_defs)

lemma session_keeps_distinct:
  assumes "distinct (map id' (expenses s))" and "fresh_adds as s"
  shows "distinct (map id' (expenses (session as s)))"
  using assms
proof (induction as s rule: fresh_adds.induct)
  case (1 s)
  then show ?case by simp
next
  case (2 now d as s)
  then show ?case by (simp add: ids_addExpense)
next
  case (3 u as s)
  then show ?case by (simp add: ids_updateExpense)
next
  case (4 c i as s)
  then show ?case by (simp add: ids_deleteExpense)
next
  case (5 i as s)
  then show ?case by (simp add: ids_togglePaid)
qed

text \<open>
  Claim C9, amended. \<open>addExpense\<close> appends one record to the collection, with the
  fields of the draft, the time of the add (\<open>Date.now()\<close>) as id and \<open>paid\<close> false; it
  compares the id with nothing. \<open>updateExpense\<close> and \<open>togglePaid\<close> keep the id at every
  position, and \<open>deleteExpense\<close>, once confirmed, removes the records with the given id
  and no other. So if the ids of the collection are pairwise distinct and every add of a
  session (adds, updates, deletes and toggles in any order) happens at a time that is
  not an id of the collection at that moment, the ids are pairwise distinct after the
  session.
\<close>

theorem session_ids_distinct:
  "expenses (addExpense now d s)
     = expenses s @ [\<lparr>name = name d, amount = amount d, dueDate = dueDate d,
                      category = category d, id' = now, paid = False\<rparr>]
    \<and> map id' (expenses (updateExpense u s)) = map id' (expenses s)
    \<and> map id' (expenses (togglePaid i s)) = map id' (expenses s)
    \<and> expenses (deleteExpense True i s) = filter (\<lambda>e. id' e \<noteq> i) (expenses s)
    \<and> expenses (deleteExpense False i s) = expenses s
    \<and> (distinct (map id' (expenses s)) \<and> fresh_adds as s
         \<longrightarrow> distinct (map id' (expenses (session as s))))"
  by (simp add: session_keeps_distinct ids_updateExpense ids_togglePaid ids_deleteExpense)
    (simp add: addExpense_def deleteExpense_def)

theorem session_ids_distinct_witness:
  "distinct (map id' (expenses app0))
    \<and> fresh_adds [Add 1000 rent, Add 2000 power_bill, Toggle 1000,
         Update (garbled\<lparr>id' := 2000\<rparr>), Add 3000 rent, Delete True 1000] app0
    \<and> map id' (expenses (session [Add 1000 rent, Add 2000 power_bill, Toggle 1000,
         Update (garbled\<lparr>id' := 2000\<rparr>), Add 3000 rent, Delete True 1000] app0)) = [2000, 3000]
    \<and> distinct (map id' (expenses (session [Add 1000 rent, Add 2000 power_bill, Toggle 1000,
         Update (garbled\<lparr>id' := 2000\<rparr>), Add 3000 rent, Delete True 1000] app0)))"
proof -
  have h1: "distinct (map id' (expenses app0))" by (simp add: example_defs)
  have h2: "fresh_adds [Add 1000 rent, Add 2000 power_bill, Toggle 1000,
         Update (garbled\<lparr>id' := 2000\<rparr>), Add 3000 rent, Delete True 1000] app0"
    by (simp add: ids_addExpense ids_togglePaid ids_updateExpense ids_deleteExpense app0_def)
  have h3: "map id' (expenses (session [Add 1000 rent, Add 2000 power_bill, Toggle 1000,
         Update (garbled\<lparr>id' := 2000\<rparr>), Add 3000 rent, Delete True 1000] app0)) = [2000, 3000]"
    by (simp add: ids_addExpense ids_togglePaid ids_updateExpense ids_deleteExpense app0_def)
  show ?thesis
    using h1 h2 h3
      session_ids_distinct [of _ _ app0 _ _ "[Add 1000 rent, Add 2000 power_bill, Toggle 1000,
         Update (garbled\<lparr>id' := 2000\<rparr>), Add 3000 rent, Delete True 1000]"]
    by simp
qed

section \<open>Properties of the form\<close>

lemma parseFloat_abc: "parseFloat_string ''abc'' = NaN"
  by (simp add: parse_defs)

lemma parseFloat_Infinity: "parseFloat_string ''Infinity'' = PInf"
  by (simp add: parse_defs)

lemma parseFloat_examples:
  "parseFloat_string ''64.50'' = Fin (129 / 2)"
  "parseFloat_string ''200'' = Fin 200"
  "parseFloat_string ''30'' = Fin 30"
  by (simp_all add: parse_defs round64_129_2 round64_small)

lemma parseFloat_tiny: "parseFloat_string ''1e-400'' = Fin 0"
proof -
  have "round64 (1 / 10 ^ 400) = Fin 0"
    by (rule round64_underflow) (simp_all add: pow2_def)
  then show ?thesis by (simp add: parse_defs)
qed

lemma handleSubmit_rejection:
  "fst (handleSubmit now ex f s) \<noteq> [] \<Longrightarrow> snd (handleSubmit now ex f s) = s"
  by (auto simp: handleSubmit_def split: if_splits)

lemma handleSubmit_empty_field:
  "name f = [] \<or> \<not> truthy (amount f) \<or> dueDate f = [] \<or> category f = [] \<Longrightarrow>
   handleSubmit now ex f s = (''All fields are required.'', s)"
  by (simp add: handleSubmit_def)

lemma handleSubmit_not_positive:
  "name f \<noteq> [] \<Longrightarrow> truthy (amount f) \<Longrightarrow> dueDate f \<noteq> [] \<Longrightarrow> category f \<noteq> [] \<Longrightarrow>
   js_le (parseFloat (amount f)) (Fin 0) \<Longrightarrow>
   handleSubmit now ex f s = (''Amount must be greater than zero.'', s)"
  by (simp add: handleSubmit_def)

lemma handleSubmit_tiny_amount:
  "handleSubmit 2000 None (rent\<lparr>amount := Str ''1e-400''\<rparr>) app0
     = (''Amount must be greater than zero.'', app0)"
  by (simp add: handleSubmit_def rent_def parseFloat_tiny)

text \<open>
  Claim C2. A submission with an empty field is rejected with the first message, and one
  whose amount parses to a number that is at most 0 with the second, the state
  unchanged (the lemmas above; \<open>1e-400\<close> parses to 0 and is rejected). A non-numeric
  amount is not rejected. The form's only control for the amount reports an empty
  string for a text that is no number, so such an amount reaches the form through the
  prop \<open>existingExpense\<close>: the stored record \<open>garbled\<close>, whose amount is the word
  \<open>abc\<close>, is opened in the form, the cells start from its fields, the user changes
  the name and submits. The numeric parse of \<open>abc\<close> is NaN, \<open>NaN <= 0\<close> is false, no
  message is shown and the record is updated with the amount \<open>abc\<close>.
\<close>

theorem handleSubmit_keeps_word_amount:
  "editingExpense (handleEdit garbled stored) = Some garbled
    \<and> form_cells (Some garbled) (filter (\<lambda>c. c \<noteq> ''All'') categories)
        = \<lparr>name = ''Water'', amount = Str ''abc'', dueDate = ''2025-03-01'',
           category = ''Utilities''\<rparr>
    \<and> handleSubmit 2000 (Some garbled)
         ((form_cells (Some garbled) (filter (\<lambda>c. c \<noteq> ''All'') categories))
            \<lparr>name := ''Water bill''\<rparr>)
         (handleEdit garbled stored)
       = ([], stored\<lparr>expenses :=
               [\<lparr>name = ''Water bill'', amount = Str ''abc'', dueDate = ''2025-03-01'',
                 category = ''Utilities'', id' = 7, paid = False\<rparr>]\<rparr>)"
  by (simp add: handleSubmit_def handleEdit_def updateExpense_def form_cells_def categories_def
      stored_def garbled_def app0_def parseFloat_abc)

theorem handleSubmit_keeps_word_amount_witness:
  "fst (handleSubmit 2000 (Some garbled)
         ((form_cells (Some garbled) (filter (\<lambda>c. c \<noteq> ''All'') categories))
            \<lparr>name := ''Water bill''\<rparr>)
         (handleEdit garbled stored)) = []
    \<and> map amount (expenses (snd (handleSubmit 2000 (Some garbled)
         ((form_cells (Some garbled) (filter (\<lambda>c. c \<noteq> ''All'') categories))
            \<lparr>name := ''Water bill''\<rparr>)
         (handleEdit garbled stored)))) = [Str ''abc'']
    \<and> map name (expenses (snd (handleSubmit 2000 (Some garbled)
         ((form_cells (Some garbled) (filter (\<lambda>c. c \<noteq> ''All'') categories))
            \<lparr>name := ''Water bill''\<rparr>)
         (handleEdit garbled stored)))) = [''Water bill'']"
  by (simp add: handleSubmit_keeps_word_amount [THEN conjunct2, THEN conjunct2])

text \<open>
  Claim C10, as stated: an update through the form never alters the paid flag. The form
  holds the record as it was when the form was opened. In \<open>editing\<close> the form is open on
  the record 1000, which is paid; marking it unpaid while the form is open and then
  saving the form marks it paid again.
\<close>

theorem toggle_while_editing_is_undone:
  "editingExpense (togglePaid 1000 editing) = Some (expenses editing ! 0)
    \<and> id' (expenses (togglePaid 1000 editing) ! 0) = 1000
    \<and> \<not> paid (expenses (togglePaid 1000 editing) ! 0)
    \<and> fst (handleSubmit 5000 (editingExpense (togglePaid 1000 editing)) power_bill
             (togglePaid 1000 editing)) = []
    \<and> paid (expenses (snd (handleSubmit 5000 (editingExpense (togglePaid 1000 editing)) power_bill
             (togglePaid 1000 editing))) ! 0)"
  by (simp add: editing_def handleEdit_def togglePaid_def example_defs handleSubmit_def
      updateExpense_def parseFloat_examples)

text \<open>
  Claim C10, amended. The form was opened on the record \<open>e\<close> (its prop
  \<open>existingExpense\<close>) and the submission is accepted. Then every position of the
  collection that holds a record with the id of \<open>e\<close> holds afterwards \<open>e\<close> with the
  four fields of the draft put in: the id of the position and every other id of the
  collection are unchanged, and the paid flag is the one \<open>e\<close> had when the form was
  opened. So the update leaves the paid flag of the record as it is whenever the flag
  was not changed while the form was open.
\<close>

theorem form_update_keeps_id_and_paid:
  assumes "k < length (expenses s)" and "id' (expenses s ! k) = id' e"
    and "fst (handleSubmit now (Some e) f s) = []"
  shows "expenses (snd (handleSubmit now (Some e) f s)) ! k
           = e\<lparr>name := name f, amount := amount f, dueDate := dueDate f,
               category := category f\<rparr>
    \<and> id' (expenses (snd (handleSubmit now (Some e) f s)) ! k) = id' (expenses s ! k)
    \<and> paid (expenses (snd (handleSubmit now (Some e) f s)) ! k) = paid e
    \<and> map id' (expenses (snd (handleSubmit now (Some e) f s))) = map id' (expenses s)
    \<and> (paid (expenses s ! k) = paid e \<longrightarrow>
         paid (expenses (snd (handleSubmit now (Some e) f s)) ! k) = paid (expenses s ! k))"
proof -
  let ?u = "e\<lparr>name := name f, amount := amount f, dueDate := dueDate f,
               category := category f\<rparr>"
  from assms(3) have r: "snd (handleSubmit now (Some e) f s) = updateExpense ?u s"
    by (auto simp: handleSubmit_def split: if_splits)
  have "expenses (updateExpense ?u s) ! k = ?u"
    using assms(1,2) by (simp add: updateExpense_def)
  then show ?thesis using assms(2) by (simp add: r ids_updateExpense)
qed

theorem form_update_keeps_id_and_paid_witness:
  "editingExpense editing = Some (expenses editing ! 0)
    \<and> (0::nat) < length (expenses editing)
    \<and> fst (handleSubmit 5000 (editingExpense editing) power_bill editing) = []
    \<and> paid (expenses editing ! 0)
    \<and> expenses (snd (handleSubmit 5000 (editingExpense editing) power_bill editing)) ! 0
        = \<lparr>name = ''Electricity Bill'', amount = Str ''64.50'', dueDate = ''2025-03-01'',
           category = ''Utilities'', id' = 1000, paid = True\<rparr>"
proof -
  have e: "expenses editing ! 0
      = \<lparr>name = ''Rent'', amount = Num (Fin 1000), dueDate = ''2025-01-01'',
         category = ''Rent/Mortgage'', id' = 1000, paid = True\<rparr>"
    by (simp add: editing_def handleEdit_def example_defs togglePaid_def)
  have h0: "editingExpense editing = Some (expenses editing ! 0)"
    by (simp add: editing_def handleEdit_def)
  have h1: "(0::nat) < length (expenses editing)"
    by (simp add: editing_def handleEdit_def example_defs togglePaid_def)
  have h2: "fst (handleSubmit 5000 (Some (expenses editing ! 0)) power_bill editing) = []"
    by (simp add: handleSubmit_def power_bill_def parseFloat_examples)
  show ?thesis
    using h1 h2 form_update_keeps_id_and_paid [OF h1 refl h2]
    by (simp add: h0 e) (simp add: power_bill_def)
qed

section \<open>Properties of the totals\<close>













lemma parseFloat_1e308:
  "parseFloat_string ''1e308'' = Fin (100000000000000001097906362944045541740492309677311846336810682903157585404911491537163328978494688899061249669721172515611590283743140088328307009198146046031271664502933027185697489699588559043338384466165001178426897626212945177628091195786707458122783970171784415105291802893207873272974885715430223118336)"
proof -
  have v: "of_int 5010420900022432 * pow2 (971) = (100000000000000001097906362944045541740492309677311846336810682903157585404911491537163328978494688899061249669721172515611590283743140088328307009198146046031271664502933027185697489699588559043338384466165001178426897626212945177628091195786707458122783970171784415105291802893207873272974885715430223118336 :: rat)" by (simp add: pow2_def)
  have r: "round64 (100000000000000000000000000000000000000000000000000000000000000000000000000000000000000000000000000000000000000000000000000000000000000000000000000000000000000000000000000000000000000000000000000000000000000000000000000000000000000000000000000000000000000000000000000000000000000000000000000000000000000000000) = Fin (of_int 5010420900022432 * pow2 (971))"
    by (rule round64_near [where L = "1023"]) (simp_all add: pow2_def)
  have rv: "round64 (100000000000000000000000000000000000000000000000000000000000000000000000000000000000000000000000000000000000000000000000000000000000000000000000000000000000000000000000000000000000000000000000000000000000000000000000000000000000000000000000000000000000000000000000000000000000000000000000000000000000000000000) = Fin (100000000000000001097906362944045541740492309677311846336810682903157585404911491537163328978494688899061249669721172515611590283743140088328307009198146046031271664502933027185697489699588559043338384466165001178426897626212945177628091195786707458122783970171784415105291802893207873272974885715430223118336)" by (simp only: r v)
  show ?thesis by (simp add: parse_defs rv)
qed


lemma huge_total_2:
  "js_add (Fin (100000000000000001097906362944045541740492309677311846336810682903157585404911491537163328978494688899061249669721172515611590283743140088328307009198146046031271664502933027185697489699588559043338384466165001178426897626212945177628091195786707458122783970171784415105291802893207873272974885715430223118336)) (Fin (100000000000000001097906362944045541740492309677311846336810682903157585404911491537163328978494688899061249669721172515611590283743140088328307009198146046031271664502933027185697489699588559043338384466165001178426897626212945177628091195786707458122783970171784415105291802893207873272974885715430223118336)) = PInf"
proof -
  have "round64 (100000000000000001097906362944045541740492309677311846336810682903157585404911491537163328978494688899061249669721172515611590283743140088328307009198146046031271664502933027185697489699588559043338384466165001178426897626212945177628091195786707458122783970171784415105291802893207873272974885715430223118336 + 100000000000000001097906362944045541740492309677311846336810682903157585404911491537163328978494688899061249669721172515611590283743140088328307009198146046031271664502933027185697489699588559043338384466165001178426897626212945177628091195786707458122783970171784415105291802893207873272974885715430223118336) = PInf"
    by (rule round64_overflow) (simp add: pow2_def)
  then show ?thesis by (simp only: js_add.simps(1))
qed


text \<open>
  Claim C3. An amount that is missing or empty counts as 0, but a non-empty amount
  that is not numeric does not: the sum over the one record \<open>garbled\<close>, whose amount is
  the word \<open>abc\<close>, is NaN. The chart's reduction over the same record skips it.
\<close>

theorem totalExpenses_word_amount:
  "totalExpenses [garbled] = NaN \<and> chartData [garbled] = []"
  by (simp add: totalExpenses_def chartData_def chart_step_def Let_def garbled_def or0_def
      parseFloat_abc)














section \<open>Properties of the chart data\<close>

lemma set_first_seen: "set (first_seen xs) = set xs"
  by (induction xs rule: first_seen.induct) auto

lemma distinct_first_seen: "distinct (first_seen xs)"
  by (induction xs rule: first_seen.induct) (auto simp: set_first_seen)

lemma amounts_of_Cons:
  "amounts_of c (e # es) =
     (if \<not> isNaN (parseFloat (amount e)) \<and> category e = c
      then parseFloat (amount e) # amounts_of c es else amounts_of c es)"
  by (simp add: amounts_of_def numeric_def)

lemma bucket_other: "category e \<noteq> c \<Longrightarrow> bucket c (e # es) = bucket c es"
  by (simp add: bucket_def amounts_of_Cons)

lemma find_None_names: "find (\<lambda>item. fst item = c) acc = None \<longleftrightarrow> c \<notin> fst ` set acc"
  by (force simp: find_None_iff)

lemma add_to_first_absent:
  "c \<notin> fst ` set acc \<Longrightarrow>
   map (\<lambda>item. if fst item = c then (fst item, js_add (snd item) n) else item) acc = acc"
  by (induction acc) auto

lemma add_to_first_distinct:
  "distinct (map fst acc) \<Longrightarrow>
   add_to_first c n acc
     = map (\<lambda>item. if fst item = c then (fst item, js_add (snd item) n) else item) acc"
proof (induction acc)
  case Nil
  show ?case by simp
next
  case (Cons item acc)
  show ?case
  proof (cases "fst item = c")
    case True
    with Cons.prems have "c \<notin> fst ` set acc" by auto
    then show ?thesis using True by (simp add: add_to_first_absent)
  next
    case False
    with Cons show ?thesis by simp
  qed
qed

lemma after_skip:
  assumes "isNaN (parseFloat (amount e))"
  shows "after acc (e # es) = after acc es"
  using assms by (simp add: after_def unseen_def bucket_def amounts_of_Cons numeric_def)

lemma after_bump:
  assumes num: "\<not> isNaN (parseFloat (amount e))" and seen: "category e \<in> fst ` set acc"
    and d: "distinct (map fst acc)"
  shows "after (add_to_first (category e) (parseFloat (amount e)) acc) es = after acc (e # es)"
proof -
  let ?c = "category e" and ?n = "parseFloat (amount e)"
  let ?g = "\<lambda>item. if fst item = ?c then (fst item, js_add (snd item) ?n) else item"
  have acc': "add_to_first ?c ?n acc = map ?g acc"
    using d by (rule add_to_first_distinct)
  have "map fst (map ?g acc) = map fst acc" by (induction acc) auto
  then have "set (map fst (map ?g acc)) = set (map fst acc)" by simp
  then have names: "fst ` set (map ?g acc) = fst ` set acc" by (simp only: set_map)
  have u: "unseen (map ?g acc) es = unseen acc (e # es)"
  proof -
    have "unseen (map ?g acc) es = unseen acc es" by (simp only: unseen_def names)
    also have "\<dots> = unseen acc (e # es)" using seen by (simp add: unseen_def numeric_def)
    finally show ?thesis .
  qed
  have left: "map (\<lambda>item. (fst item, foldl js_add (snd item) (amounts_of (fst item) es)))
        (map ?g acc)
      = map (\<lambda>item. (fst item, foldl js_add (snd item) (amounts_of (fst item) (e # es)))) acc"
    using num by (simp add: amounts_of_Cons)
  have right: "map (\<lambda>c. (c, bucket c es)) (first_seen (unseen acc (e # es)))
      = map (\<lambda>c. (c, bucket c (e # es))) (first_seen (unseen acc (e # es)))"
  proof (rule map_cong [OF refl])
    fix c assume "c \<in> set (first_seen (unseen acc (e # es)))"
    then have "c \<notin> fst ` set acc" by (simp add: set_first_seen unseen_def)
    with seen have "?c \<noteq> c" by auto
    then show "(c, bucket c es) = (c, bucket c (e # es))" by (simp add: bucket_other)
  qed
  show ?thesis unfolding acc' by (simp only: after_def u left right)
qed

lemma after_push:
  assumes num: "\<not> isNaN (parseFloat (amount e))" and new: "category e \<notin> fst ` set acc"
  shows "after (acc @ [(category e, parseFloat (amount e))]) es = after acc (e # es)"
proof -
  let ?c = "category e" and ?n = "parseFloat (amount e)"
  have f: "filter (\<lambda>c. c \<notin> fst ` set (acc @ [(?c, ?n)])) xs
      = filter (\<lambda>y. y \<noteq> ?c) (filter (\<lambda>c. c \<notin> fst ` set acc) xs)" for xs
    by (induction xs) auto
  have u: "unseen acc (e # es) = ?c # unseen acc es"
    using num new by (simp add: unseen_def numeric_def)
  have u': "unseen (acc @ [(?c, ?n)]) es = filter (\<lambda>y. y \<noteq> ?c) (unseen acc es)"
    by (simp only: unseen_def f)
  have left: "map (\<lambda>item. (fst item, foldl js_add (snd item) (amounts_of (fst item) es))) acc
      = map (\<lambda>item. (fst item, foldl js_add (snd item) (amounts_of (fst item) (e # es)))) acc"
  proof (rule map_cong [OF refl])
    fix item assume "item \<in> set acc"
    with new have "?c \<noteq> fst item" by auto
    then show "(fst item, foldl js_add (snd item) (amounts_of (fst item) es))
        = (fst item, foldl js_add (snd item) (amounts_of (fst item) (e # es)))"
      by (simp add: amounts_of_Cons)
  qed
  have right: "map (\<lambda>c. (c, bucket c es)) (first_seen (filter (\<lambda>y. y \<noteq> ?c) (unseen acc es)))
      = map (\<lambda>c. (c, bucket c (e # es))) (first_seen (filter (\<lambda>y. y \<noteq> ?c) (unseen acc es)))"
  proof (rule map_cong [OF refl])
    fix c assume "c \<in> set (first_seen (filter (\<lambda>y. y \<noteq> ?c) (unseen acc es)))"
    then have "?c \<noteq> c" by (auto simp: set_first_seen)
    then show "(c, bucket c es) = (c, bucket c (e # es))" by (simp add: bucket_other)
  qed
  have new_entry: "foldl js_add ?n (amounts_of ?c es) = bucket ?c (e # es)"
    using num by (simp add: bucket_def amounts_of_Cons)
  show ?thesis
    unfolding after_def u u' by (simp add: left right new_entry)
qed

lemma foldl_chart_step:
  "distinct (map fst acc) \<Longrightarrow> foldl chart_step acc es = after acc es"
proof (induction es arbitrary: acc)
  case Nil
  show ?case by (simp add: after_def unseen_def amounts_of_def numeric_def)
next
  case (Cons e es)
  show ?case
  proof (cases "isNaN (parseFloat (amount e))")
    case True
    then have "chart_step acc e = acc" by (simp add: chart_step_def)
    then show ?thesis using Cons True by (simp add: after_skip)
  next
    case False
    show ?thesis
    proof (cases "category e \<in> fst ` set acc")
      case True
      then have "find (\<lambda>item. fst item = category e) acc \<noteq> None"
        by (simp add: find_None_names)
      then have step: "chart_step acc e = add_to_first (category e) (parseFloat (amount e)) acc"
        using False by (auto simp: chart_step_def Let_def)
      have "map fst (add_to_first (category e) (parseFloat (amount e)) acc) = map fst acc"
        by (induction acc) auto
      then have "distinct (map fst (add_to_first (category e) (parseFloat (amount e)) acc))"
        using Cons.prems by simp
      then show ?thesis
        using Cons.IH step after_bump [OF False True Cons.prems] by simp
    next
      case notin: False
      then have "find (\<lambda>item. fst item = category e) acc = None"
        by (simp add: find_None_names)
      then have step: "chart_step acc e = acc @ [(category e, parseFloat (amount e))]"
        using False by (simp add: chart_step_def Let_def)
      have "distinct (map fst (acc @ [(category e, parseFloat (amount e))]))"
        using Cons.prems notin by auto
      then show ?thesis
        using Cons.IH step after_push [OF False notin] by simp
    qed
  qed
qed

lemma chartData_eq: "chartData es = categoryBreakdown es"
  using foldl_chart_step [of "[]" es]
  by (simp add: chartData_def categoryBreakdown_def after_def unseen_def)

lemma isNaN_js_add:
  "\<not> isNaN a \<Longrightarrow> \<not> isNaN b \<Longrightarrow> isNaN (js_add a b) = opposite a b"
  using round64_not_NaN by (cases a; cases b) (auto simp: elim: isNaN.elims)

lemma foldl_NaN: "foldl js_add NaN ns = NaN"
  by (induction ns) auto

lemma isNaN_foldl:
  "\<not> isNaN a \<Longrightarrow> list_all (\<lambda>n. \<not> isNaN n) ns \<Longrightarrow> isNaN (foldl js_add a ns) = clashes a ns"
proof (induction ns arbitrary: a)
  case Nil
  then show ?case by simp
next
  case (Cons n ns)
  show ?case
  proof (cases "opposite a n")
    case True
    then have "js_add a n = NaN" by (cases a; cases n) auto
    with True show ?thesis by (simp add: foldl_NaN)
  next
    case False
    with Cons.prems have "\<not> isNaN (js_add a n)" by (simp add: isNaN_js_add)
    with Cons False show ?thesis by simp
  qed
qed

lemma isNaN_js_sum: "list_all (\<lambda>n. \<not> isNaN n) ns \<Longrightarrow> isNaN (js_sum ns) = clash ns"
  by (cases ns) (simp_all add: isNaN_foldl)

lemma amounts_of_numeric: "list_all (\<lambda>n. \<not> isNaN n) (amounts_of c es)"
  by (simp add: amounts_of_def numeric_def list_all_iff)

lemma clashes_finite: "list_all (\<lambda>n. \<not> is_infinite n) ns \<Longrightarrow> \<not> clashes a ns"
proof (induction ns arbitrary: a)
  case Nil
  show ?case by simp
next
  case (Cons n ns)
  then have "\<not> opposite a n" by (cases a; cases n) auto
  with Cons show ?case by simp
qed

lemma round64_nonneg: "0 \<le> x \<Longrightarrow> nonneg (round64 x)"
proof -
  assume x: "0 \<le> x"
  have "0 \<le> round_half_even (\<bar>x\<bar> / pow2 e)" for e
    using pow2_pos [of e] by (intro round_half_even_nonneg) simp
  then have "0 \<le> of_int (round_half_even (\<bar>x\<bar> / pow2 e)) * pow2 e" for e
    using pow2_pos [of e] by (simp add: less_imp_le)
  with x show ?thesis by (auto simp: round64_def Let_def)
qed

lemma js_add_nonneg: "nonneg a \<Longrightarrow> nonneg b \<Longrightarrow> nonneg (js_add a b)"
  by (cases a; cases b) (simp_all add: round64_nonneg)

lemma clashes_nonneg: "nonneg a \<Longrightarrow> list_all nonneg ns \<Longrightarrow> \<not> clashes a ns"
proof (induction ns arbitrary: a)
  case Nil
  show ?case by simp
next
  case (Cons n ns)
  then have "\<not> opposite a n" by (cases a; cases n) auto
  with Cons show ?case by (simp add: js_add_nonneg)
qed

lemma clash_finite: "list_all (\<lambda>n. \<not> is_infinite n) ns \<Longrightarrow> \<not> clash ns"
  by (cases ns) (simp_all add: clashes_finite)

lemma clash_nonneg: "list_all nonneg ns \<Longrightarrow> \<not> clash ns"
  by (cases ns) (simp_all add: clashes_nonneg)

lemma parseFloat_minus_Infinity: "parseFloat_string ''-Infinity'' = NInf"
  by (simp add: parse_defs)

text \<open>
  Claim C8, as stated: every value of the breakdown is a number that is not NaN. Two
  records of the category \<open>Other\<close> with the amounts \<open>Infinity\<close> and \<open>-Infinity\<close> are both
  numeric, so neither is skipped, and the value of their one entry is NaN.
\<close>

theorem chartData_value_NaN:
  "chartData [unbounded, unbounded\<lparr>amount := Str ''-Infinity''\<rparr>] = [(''Other'', NaN)]"
  by (simp add: chartData_def chart_step_def Let_def unbounded_def parseFloat_Infinity
      parseFloat_minus_Infinity)

text \<open>
  The same happens when the positive infinity is not an amount but the overflow of the
  sum of two finite amounts.
\<close>

lemma chartData_overflow_NaN:
  "chartData [huge, huge\<lparr>id' := 32\<rparr>, unbounded\<lparr>amount := Str ''-Infinity''\<rparr>]
     = [(''Other'', NaN)]"
  by (simp del: js_add.simps(1) add: chartData_def chart_step_def Let_def unbounded_def huge_def
      parseFloat_1e308 parseFloat_minus_Infinity huge_total_2)

text \<open>
  Claim C8, amended. For every filtered sequence the chart data is the category
  breakdown: one entry for each category that has a record with a numeric amount, in
  first-seen order and with no name twice, whose value is the sum of the numeric amounts
  of the category, added in the order of the records, records with a non-numeric amount
  being skipped. A value is NaN exactly when, while the amounts of its category are
  added, an infinite amount meets a sum that is the infinity of the opposite sign. So
  every value is a number that is not NaN when no numeric amount is infinite, and also
  when no numeric amount is negative. The witness holds the two records of 800 and 200 of
  one category, which give a single entry of 1000.
\<close>

theorem chartData_is_categoryBreakdown:
  "chartData es = categoryBreakdown es
    \<and> map fst (chartData es) = first_seen (map category (numeric es))
    \<and> distinct (map fst (chartData es))
    \<and> list_all (\<lambda>item. snd item = js_sum (amounts_of (fst item) es)
                   \<and> isNaN (snd item) = clash (amounts_of (fst item) es)) (chartData es)
    \<and> (list_all (\<lambda>e. \<not> is_infinite (parseFloat (amount e))) (numeric es) \<longrightarrow>
         list_all (\<lambda>item. \<not> isNaN (snd item)) (chartData es))
    \<and> (list_all (\<lambda>e. nonneg (parseFloat (amount e))) (numeric es) \<longrightarrow>
         list_all (\<lambda>item. \<not> isNaN (snd item)) (chartData es))"
proof -
  have eq: "chartData es = categoryBreakdown es" by (rule chartData_eq)
  have names: "map fst (categoryBreakdown es) = first_seen (map category (numeric es))"
    by (simp add: categoryBreakdown_def comp_def)
  have nan: "isNaN (bucket c es) = clash (amounts_of c es)" for c
    unfolding bucket_def by (rule isNaN_js_sum) (rule amounts_of_numeric)
  have vals: "list_all (\<lambda>item. snd item = js_sum (amounts_of (fst item) es)
                   \<and> isNaN (snd item) = clash (amounts_of (fst item) es)) (categoryBreakdown es)"
    by (simp add: categoryBreakdown_def list_all_iff nan) (simp add: bucket_def)
  have fin: "\<not> isNaN (bucket c es)"
    if "list_all (\<lambda>e. \<not> is_infinite (parseFloat (amount e))) (numeric es)" for c
  proof -
    from that have "list_all (\<lambda>n. \<not> is_infinite n) (amounts_of c es)"
      by (simp add: amounts_of_def list_all_iff)
    then show ?thesis by (simp add: nan clash_finite)
  qed
  have pos: "\<not> isNaN (bucket c es)"
    if "list_all (\<lambda>e. nonneg (parseFloat (amount e))) (numeric es)" for c
  proof -
    from that have "list_all nonneg (amounts_of c es)"
      by (simp add: amounts_of_def list_all_iff)
    then show ?thesis by (simp add: nan clash_nonneg)
  qed
  have fin': "list_all (\<lambda>item. \<not> isNaN (snd item)) (categoryBreakdown es)"
    if "list_all (\<lambda>e. \<not> is_infinite (parseFloat (amount e))) (numeric es)"
    using fin [OF that] by (simp add: categoryBreakdown_def list_all_iff)
  have pos': "list_all (\<lambda>item. \<not> isNaN (snd item)) (categoryBreakdown es)"
    if "list_all (\<lambda>e. nonneg (parseFloat (amount e))) (numeric es)"
    using pos [OF that] by (simp add: categoryBreakdown_def list_all_iff)
  show ?thesis
    using vals fin' pos' by (simp add: eq names distinct_first_seen)
qed


theorem chartData_is_categoryBreakdown_witness:
  "list_all (\<lambda>e. \<not> is_infinite (parseFloat (amount e)))
      (numeric [rent800, garbled, rent200, misdated])
    \<and> chartData [rent800, garbled, rent200, misdated]
        = [(''Rent/Mortgage'', Fin 1000), (''Other'', Fin 30)]
    \<and> categoryBreakdown [rent800, garbled, rent200, misdated]
        = [(''Rent/Mortgage'', Fin 1000), (''Other'', Fin 30)]
    \<and> chartData [rent800, rent200] = [(''Rent/Mortgage'', Fin 1000)]
    \<and> list_all (\<lambda>e. nonneg (parseFloat (amount e))) (numeric [unbounded])
    \<and> chartData [unbounded] = [(''Other'', PInf)]"
proof -
  have h: "list_all (\<lambda>e. \<not> is_infinite (parseFloat (amount e)))
             (numeric [rent800, garbled, rent200, misdated])"
    by (simp add: numeric_def rent800_def rent200_def garbled_def misdated_def
        parseFloat_examples parseFloat_abc)
  have c: "chartData [rent800, garbled, rent200, misdated]
      = [(''Rent/Mortgage'', Fin 1000), (''Other'', Fin 30)]"
    by (simp add: chartData_def chart_step_def Let_def rent800_def rent200_def garbled_def
        misdated_def parseFloat_examples parseFloat_abc round64_small)
  have d: "chartData [rent800, rent200] = [(''Rent/Mortgage'', Fin 1000)]"
    by (simp add: chartData_def chart_step_def Let_def rent800_def rent200_def
        parseFloat_examples round64_small)
  have n: "list_all (\<lambda>e. nonneg (parseFloat (amount e))) (numeric [unbounded])"
    by (simp add: numeric_def unbounded_def parseFloat_Infinity)
  have u: "chartData [unbounded] = [(''Other'', PInf)]"
    by (simp add: chartData_def chart_step_def Let_def unbounded_def parseFloat_Infinity)
  have e: "categoryBreakdown [rent800, garbled, rent200, misdated]
        = [(''Rent/Mortgage'', Fin 1000), (''Other'', Fin 30)]"
    unfolding chartData_is_categoryBreakdown
      [of "[rent800, garbled, rent200, misdated]", THEN conjunct1, symmetric]
    by (rule c)
  show ?thesis by (intro conjI h c d n u e)
qed

section \<open>Properties of the filter\<close>

lemma iso_not_a_date: "iso_date ''not a date'' = None"
  by (simp add: iso_date_def)

text \<open>
  Claim C1, as stated: a record whose due date cannot be read never passes the filter.
  With the three filters at \<open>All\<close> the record \<open>misdated\<close>, whose due date is the
  non-empty string \<open>not a date\<close>, passes.
\<close>

theorem unparseable_shown_under_All:
  "iso_date (dueDate misdated) = None
    \<and> filteredExpenses iso_date [rent800, misdated] ''All'' ''All'' ''All'' = [rent800, misdated]"
  by (simp add: filteredExpenses_def misdated_def rent800_def iso_not_a_date)

text \<open>
  Claim C1, amended. A record with an empty due date passes under no filter selection.
  A record whose due date the runtime cannot read passes under no selection that names
  a year or a month; under the selection of all years and all months a non-empty
  unreadable due date does not exclude it, and it passes exactly when the category
  filter admits it.
\<close>

theorem filteredExpenses_unreadable_date:
  "(dueDate e = [] \<longrightarrow> e \<notin> set (filteredExpenses D es cf mf yf))
    \<and> (D (dueDate e) = None \<and> (yf \<noteq> ''All'' \<or> mf \<noteq> ''All'')
         \<longrightarrow> e \<notin> set (filteredExpenses D es cf mf yf))
    \<and> (D (dueDate e) = None \<and> dueDate e \<noteq> [] \<and> yf = ''All'' \<and> mf = ''All''
         \<longrightarrow> (e \<in> set (filteredExpenses D es cf mf yf)
               \<longleftrightarrow> e \<in> set es \<and> (cf = ''All'' \<or> category e = cf)))"
  by (auto simp: filteredExpenses_def Let_def)

theorem filteredExpenses_unreadable_date_witness:
  "dueDate undated = [] \<and> iso_date (dueDate misdated) = None \<and> dueDate misdated \<noteq> []
    \<and> undated \<notin> set (filteredExpenses iso_date [rent800, undated, misdated] ''All'' ''All'' ''All'')
    \<and> misdated \<notin> set (filteredExpenses iso_date [rent800, undated, misdated] ''All'' ''All'' ''2025'')
    \<and> misdated \<notin> set (filteredExpenses iso_date [rent800, undated, misdated] ''All'' ''2'' ''All'')
    \<and> misdated \<in> set (filteredExpenses iso_date [rent800, undated, misdated] ''All'' ''All'' ''All'')
    \<and> misdated \<in> set (filteredExpenses iso_date [rent800, undated, misdated] ''Other'' ''All'' ''All'')
    \<and> misdated \<notin> set (filteredExpenses iso_date [rent800, undated, misdated] ''Utilities'' ''All'' ''All'')"
proof -
  have h1: "dueDate undated = []" by (simp add: undated_def)
  have h2: "iso_date (dueDate misdated) = None" by (simp add: misdated_def iso_not_a_date)
  have h3: "dueDate misdated \<noteq> []" by (simp add: misdated_def)
  have h4: "misdated \<in> set [rent800, undated, misdated]" by simp
  have h5: "category misdated = ''Other''" by (simp add: misdated_def)
  note t = filteredExpenses_unreadable_date [where D = iso_date and es = "[rent800, undated, misdated]"]
  show ?thesis
    using h1 h2 h3 h4 h5
      t [of undated "''All''" "''All''" "''All''"]
      t [of misdated "''All''" "''All''" "''2025''"]
      t [of misdated "''All''" "''2''" "''All''"]
      t [of misdated "''All''" "''All''" "''All''"]
      t [of misdated "''Other''" "''All''" "''All''"]
      t [of misdated "''Utilities''" "''All''" "''All''"]
    by simp
qed

section \<open>Properties of loading\<close>

lemma JSON_parse_not_json: "JSON_parse ''not json'' = Inl SyntaxError"
  by code_simp

lemma JSON_parse_examples:
  "JSON_parse ''[1,]'' = Inl SyntaxError"
  "JSON_parse ''[1]'' = Inr (JArray [JNumber 1])"
  "JSON_parse ''[]'' = Inr (JArray [])"
  by code_simp+

text \<open>
  Claim C7. When the storage has no value under the key, \<open>load\<close> returns the empty
  array and writes nothing to the console. When the stored string makes the parser
  throw, \<open>load\<close> returns the empty array, and its only other effect is one line on the
  console (none for a stored empty string, which is not parsed at all). The string
  \<open>not json\<close> makes \<open>JSON.parse\<close> throw. \<open>load\<close> returns a value in every case: the
  \<open>catch\<close> clause takes every exception of the body, a throwing storage included.
\<close>

theorem load_absent_or_corrupt:
  "(items ''expenses'' = None \<longrightarrow> load P (Inr items) = (JArray [], []))
    \<and> (items ''expenses'' = Some blob \<and> P blob = Inl e \<longrightarrow>
         fst (load P (Inr items)) = JArray []
         \<and> snd (load P (Inr items))
             = (if blob = [] then [] else [''Error parsing expenses from localStorage'']))
    \<and> load P (Inl e) = (JArray [], [''Error parsing expenses from localStorage''])
    \<and> JSON_parse ''not json'' = Inl SyntaxError
    \<and> load JSON_parse (Inr [''expenses'' \<mapsto> ''not json''])
         = (JArray [], [''Error parsing expenses from localStorage''])"
  by (simp add: load_def try_body_def JSON_parse_not_json)

theorem load_absent_or_corrupt_witness:
  "load JSON_parse (Inr Map.empty) = (JArray [], [])
    \<and> JSON_parse ''[1,]'' = Inl SyntaxError
    \<and> load JSON_parse (Inr [''expenses'' \<mapsto> ''[1,]''])
         = (JArray [], [''Error parsing expenses from localStorage''])
    \<and> load JSON_parse (Inr [''expenses'' \<mapsto> ''[]'']) = (JArray [], [])
    \<and> load JSON_parse (Inr [''expenses'' \<mapsto> ''[1]'']) = (JArray [JNumber 1], [])"
proof -
  have v: "load JSON_parse (Inr [''expenses'' \<mapsto> ''[1]'']) = (JArray [JNumber 1], [])"
      "load JSON_parse (Inr [''expenses'' \<mapsto> ''[]'']) = (JArray [], [])"
    by (simp_all add: load_def try_body_def JSON_parse_examples)
  show ?thesis
    using v JSON_parse_examples(1)
      load_absent_or_corrupt [of Map.empty JSON_parse "''[1,]''" SyntaxError]
      load_absent_or_corrupt [of "[''expenses'' \<mapsto> ''[1,]'']" JSON_parse "''[1,]''" SyntaxError]
    by (simp add: prod_eq_iff)
qed

end
